theory Spec2Isabelle
  imports Complex_Main "HOL-Library.Multiset"
begin

section \<open>Tensors and the hand-rolled penalty terms\<close>

text \<open>
  A tensor is its shape together with its elements in row-major order. The entries
  are real numbers and the sums below are exact; the rounding of the library's
  32-bit arithmetic is modelled separately, for the claim that depends on it.
\<close>

record tensor =
  shape :: "nat list"
  elems :: "real list"

text \<open>\<^verbatim>\<open>parameter.view(-1)\<close>: the same elements, seen as one dimension.\<close>

definition view_flat :: "tensor \<Rightarrow> tensor" where
  "view_flat t = \<lparr>shape = [length (elems t)], elems = elems t\<rparr>"

text \<open>
  \<^verbatim>\<open>torch.cat\<close> on one-dimensional tensors, as the training loops call it: the
  elements of the arguments, one after the other. The library refuses an empty list
  of tensors (see \<open>torch_cat\<close> below); the loops never pass one, since every network
  of the notebooks has parameters.
\<close>

definition cat :: "tensor list \<Rightarrow> tensor" where
  "cat ts = \<lparr>shape = [length (concat (map elems ts))], elems = concat (map elems ts)\<rparr>"

definition torch_abs :: "tensor \<Rightarrow> tensor" where
  "torch_abs w = w\<lparr>elems := map abs (elems w)\<rparr>"

definition torch_square :: "tensor \<Rightarrow> tensor" where
  "torch_square w = w\<lparr>elems := map (\<lambda>e. e * e) (elems w)\<rparr>"

definition torch_sum :: "tensor \<Rightarrow> real" where
  "torch_sum w = sum_list (elems w)"

text \<open>\<^verbatim>\<open>MLP.compute_l1_loss\<close>: \<^verbatim>\<open>torch.abs(w).sum()\<close>.\<close>

definition compute_l1_loss :: "tensor \<Rightarrow> real" where
  "compute_l1_loss w = torch_sum (torch_abs w)"

text \<open>\<^verbatim>\<open>MLP.compute_l2_loss\<close>: \<^verbatim>\<open>torch.square(w).sum()\<close>.\<close>

definition compute_l2_loss :: "tensor \<Rightarrow> real" where
  "compute_l2_loss w = torch_sum (torch_square w)"

text \<open>
  The collection loop of the regularised notebooks:
  \<^verbatim>\<open>ps = []; for parameter in mlp.parameters(): ps.append(parameter.view(-1))\<close>.
\<close>

definition flattened :: "tensor list \<Rightarrow> tensor list" where
  "flattened ps = foldl (\<lambda>acc parameter. acc @ [view_flat parameter]) [] ps"

section \<open>The framework and the training state\<close>

text \<open>
  The network's forward pass, the loss function, automatic differentiation and the
  optimizer's update rule belong to the external framework; they are parameters of
  the development. A scalar that the forward pass produces is kept as the function
  of the parameters that the backward pass differentiates; its \<^verbatim>\<open>.item()\<close> is
  the value of that function at the parameters of the forward pass. The framework's
  own state (random generator for shuffling and dropout, the optimizer's moment
  estimates) is the type \<open>'s\<close>.
\<close>

type_synonym scalar = "tensor list \<Rightarrow> real"

datatype optimizer = AdamW real "real option" | Adam real

record ('x, 'y, 'o, 's) framework =
  net :: "'s \<Rightarrow> 'x \<Rightarrow> (tensor list \<Rightarrow> 'o) \<times> 's"
  loss_function :: "'o \<Rightarrow> 'y \<Rightarrow> real"
  autograd :: "scalar \<Rightarrow> tensor list \<Rightarrow> tensor list"
  optimizer_update ::
    "optimizer \<Rightarrow> 's \<Rightarrow> tensor list \<Rightarrow> tensor list option \<Rightarrow> tensor list \<times> 's"

text \<open>The calls a loop makes into the framework, in the order it makes them.\<close>

datatype call = Zero_grad | Forward | Loss_function | Backward real | Optimizer_step

datatype phase = ZeroGrad | ForwardPass | ComputeLoss | BackwardPass | OptimizerStep

fun phase_of :: "call \<Rightarrow> phase" where
  "phase_of Zero_grad = ZeroGrad"
| "phase_of Forward = ForwardPass"
| "phase_of Loss_function = ComputeLoss"
| "phase_of (Backward v) = BackwardPass"
| "phase_of Optimizer_step = OptimizerStep"

text \<open>The values of the losses on which \<^verbatim>\<open>backward()\<close> was called.\<close>

fun backprop_values :: "call list \<Rightarrow> real list" where
  "backprop_values [] = []"
| "backprop_values (Backward v # cs) = v # backprop_values cs"
| "backprop_values (c # cs) = backprop_values cs"

text \<open>A printed line: the format string and the values it is applied to.\<close>

datatype arg = Int_arg nat | Float_arg real

datatype line = Printf string "arg list"

record 's train_state =
  parameters :: "tensor list"
  grad :: "tensor list option"
  fw_state :: 's
  stdout :: "line list"
  trace :: "call list"

definition print :: "line \<Rightarrow> 's train_state \<Rightarrow> 's train_state" where
  "print l st = st\<lparr>stdout := stdout st @ [l]\<rparr>"

definition tensor_add :: "tensor \<Rightarrow> tensor \<Rightarrow> tensor" where
  "tensor_add a b = a\<lparr>elems := map2 (+) (elems a) (elems b)\<rparr>"

text \<open>\<^verbatim>\<open>optimizer.zero_grad()\<close>\<close>

definition zero_grad :: "'s train_state \<Rightarrow> 's train_state" where
  "zero_grad st = st\<lparr>grad := None, trace := trace st @ [Zero_grad]\<rparr>"

text \<open>\<^verbatim>\<open>outputs = mlp(inputs)\<close>\<close>

definition forward ::
  "('x, 'y, 'o, 's) framework \<Rightarrow> 'x \<Rightarrow> 's train_state \<Rightarrow> (tensor list \<Rightarrow> 'o) \<times> 's train_state" where
  "forward fw inputs st =
     (let (outputs, s') = net fw (fw_state st) inputs
      in (outputs, st\<lparr>fw_state := s', trace := trace st @ [Forward]\<rparr>))"

text \<open>\<^verbatim>\<open>loss = loss_function(outputs, targets)\<close>\<close>

definition criterion ::
  "('x, 'y, 'o, 's) framework \<Rightarrow> (tensor list \<Rightarrow> 'o) \<Rightarrow> 'y \<Rightarrow> 's train_state \<Rightarrow> scalar \<times> 's train_state" where
  "criterion fw outputs targets st =
     ((\<lambda>w. loss_function fw (outputs w) targets), st\<lparr>trace := trace st @ [Loss_function]\<rparr>)"

text \<open>\<^verbatim>\<open>loss.backward()\<close>: the gradient is added to what \<^verbatim>\<open>.grad\<close> holds.\<close>

definition backward ::
  "('x, 'y, 'o, 's) framework \<Rightarrow> scalar \<Rightarrow> 's train_state \<Rightarrow> 's train_state" where
  "backward fw loss st =
     (let g = autograd fw loss (parameters st)
      in st\<lparr>grad := Some (case grad st of None \<Rightarrow> g | Some g0 \<Rightarrow> map2 tensor_add g0 g),
             trace := trace st @ [Backward (loss (parameters st))]\<rparr>)"

text \<open>\<^verbatim>\<open>optimizer.step()\<close>\<close>

definition optimizer_step ::
  "('x, 'y, 'o, 's) framework \<Rightarrow> optimizer \<Rightarrow> 's train_state \<Rightarrow> 's train_state" where
  "optimizer_step fw opt st =
     (let (w', s') = optimizer_update fw opt (fw_state st) (parameters st) (grad st)
      in st\<lparr>parameters := w', fw_state := s', trace := trace st @ [Optimizer_step]\<rparr>)"

text \<open>\<^verbatim>\<open>for i, data in enumerate(trainloader, 0): body\<close>\<close>

fun enumerate_loop :: "(nat \<Rightarrow> 'd \<Rightarrow> 'a \<Rightarrow> 'a) \<Rightarrow> nat \<Rightarrow> 'd list \<Rightarrow> 'a \<Rightarrow> 'a" where
  "enumerate_loop body i [] st = st"
| "enumerate_loop body i (d # ds) st = enumerate_loop body (Suc i) ds (body i d st)"

section \<open>The L1 notebook\<close>

definition l1_optimizer :: optimizer where
  "l1_optimizer = AdamW (1 / 10 ^ 4) None"

definition l1_iteration ::
  "('x, 'y, 'o, 's) framework \<Rightarrow> nat \<Rightarrow> 'x \<times> 'y \<Rightarrow> 's train_state \<Rightarrow> 's train_state" where
  "l1_iteration fw i data st0 =
     (let (inputs, targets) = data;
          w0 = parameters st0;
          st1 = zero_grad st0;
          (outputs, st2) = forward fw inputs st1;
          (loss, st3) = criterion fw outputs targets st2;
          l1_weight = 1;
          l1 = (\<lambda>w. l1_weight * compute_l1_loss (cat (flattened w)));
          loss = (\<lambda>w. loss w + l1 w);
          st4 = backward fw loss st3;
          st5 = optimizer_step fw l1_optimizer st4;
          minibatch_loss = loss w0
      in if i mod 500 = 499
         then print (Printf ''Loss after mini-batch %5d: %.5f (of which %.5f L1 loss)''
                       [Int_arg (i + 1), Float_arg minibatch_loss, Float_arg (l1 w0)]) st5
         else st5)"

definition l1_epoch ::
  "('x, 'y, 'o, 's) framework \<Rightarrow> nat \<Rightarrow> ('x \<times> 'y) list \<Rightarrow> 's train_state \<Rightarrow> 's train_state" where
  "l1_epoch fw epoch trainloader st =
     enumerate_loop (l1_iteration fw) 0 trainloader
       (print (Printf ''Starting epoch {}'' [Int_arg (epoch + 1)]) st)"

definition l1_main ::
  "('x, 'y, 'o, 's) framework \<Rightarrow> (nat \<Rightarrow> ('x \<times> 'y) list) \<Rightarrow> 's train_state \<Rightarrow> 's train_state" where
  "l1_main fw trainloader st =
     print (Printf ''Training process has finished.'' [])
       (foldl (\<lambda>st epoch. l1_epoch fw epoch (trainloader epoch) st) st [0..<5])"

section \<open>The L2 notebook\<close>

definition l2_optimizer :: optimizer where
  "l2_optimizer = AdamW (1 / 10 ^ 4) None"

definition l2_iteration ::
  "('x, 'y, 'o, 's) framework \<Rightarrow> nat \<Rightarrow> 'x \<times> 'y \<Rightarrow> 's train_state \<Rightarrow> 's train_state" where
  "l2_iteration fw i data st0 =
     (let (inputs, targets) = data;
          w0 = parameters st0;
          st1 = zero_grad st0;
          (outputs, st2) = forward fw inputs st1;
          (loss, st3) = criterion fw outputs targets st2;
          l2_weight = 1;
          l2 = (\<lambda>w. l2_weight * compute_l2_loss (cat (flattened w)));
          loss = (\<lambda>w. loss w + l2 w);
          st4 = backward fw loss st3;
          st5 = optimizer_step fw l2_optimizer st4;
          minibatch_loss = loss w0
      in if i mod 500 = 499
         then print (Printf ''Loss after mini-batch %5d: %.5f (of which %.5f l2 loss)''
                       [Int_arg (i + 1), Float_arg minibatch_loss, Float_arg (l2 w0)]) st5
         else st5)"

definition l2_epoch ::
  "('x, 'y, 'o, 's) framework \<Rightarrow> nat \<Rightarrow> ('x \<times> 'y) list \<Rightarrow> 's train_state \<Rightarrow> 's train_state" where
  "l2_epoch fw epoch trainloader st =
     enumerate_loop (l2_iteration fw) 0 trainloader
       (print (Printf ''Starting epoch {}'' [Int_arg (epoch + 1)]) st)"

definition l2_main ::
  "('x, 'y, 'o, 's) framework \<Rightarrow> (nat \<Rightarrow> ('x \<times> 'y) list) \<Rightarrow> 's train_state \<Rightarrow> 's train_state" where
  "l2_main fw trainloader st =
     print (Printf ''Training process has finished.'' [])
       (foldl (\<lambda>st epoch. l2_epoch fw epoch (trainloader epoch) st) st [0..<5])"

section \<open>The Elastic Net notebook\<close>

definition elastic_optimizer :: optimizer where
  "elastic_optimizer = AdamW (1 / 10 ^ 4) None"

definition elastic_iteration ::
  "('x, 'y, 'o, 's) framework \<Rightarrow> nat \<Rightarrow> 'x \<times> 'y \<Rightarrow> 's train_state \<Rightarrow> 's train_state" where
  "elastic_iteration fw i data st0 =
     (let (inputs, targets) = data;
          w0 = parameters st0;
          st1 = zero_grad st0;
          (outputs, st2) = forward fw inputs st1;
          (loss, st3) = criterion fw outputs targets st2;
          l1_weight = 3 / 10;
          l2_weight = 7 / 10;
          l1 = (\<lambda>w. l1_weight * compute_l1_loss (cat (flattened w)));
          l2 = (\<lambda>w. l2_weight * compute_l2_loss (cat (flattened w)));
          loss = (\<lambda>w. loss w + l1 w);
          loss = (\<lambda>w. loss w + l2 w);
          st4 = backward fw loss st3;
          st5 = optimizer_step fw elastic_optimizer st4;
          minibatch_loss = loss w0
      in if i mod 500 = 499
         then print (Printf
                ''Loss after mini-batch %5d: %.5f (of which %.5f L1 loss; %0.5f L2 loss)''
                [Int_arg (i + 1), Float_arg minibatch_loss, Float_arg (l1 w0), Float_arg (l2 w0)])
                st5
         else st5)"

definition elastic_epoch ::
  "('x, 'y, 'o, 's) framework \<Rightarrow> nat \<Rightarrow> ('x \<times> 'y) list \<Rightarrow> 's train_state \<Rightarrow> 's train_state" where
  "elastic_epoch fw epoch trainloader st =
     enumerate_loop (elastic_iteration fw) 0 trainloader
       (print (Printf ''Starting epoch {}'' [Int_arg (epoch + 1)]) st)"

definition elastic_main ::
  "('x, 'y, 'o, 's) framework \<Rightarrow> (nat \<Rightarrow> ('x \<times> 'y) list) \<Rightarrow> 's train_state \<Rightarrow> 's train_state" where
  "elastic_main fw trainloader st =
     print (Printf ''Training process has finished.'' [])
       (foldl (\<lambda>st epoch. elastic_epoch fw epoch (trainloader epoch) st) st [0..<5])"

section \<open>The Dropout notebook (optimizer with weight decay)\<close>

text \<open>
  The loops of this notebook and of the ConvNet notebook keep the local variable
  \<^verbatim>\<open>current_loss\<close>; the loop state is the training state paired with it.
\<close>

definition dropout_optimizer :: optimizer where
  "dropout_optimizer = AdamW (1 / 10 ^ 4) (Some 1)"

definition dropout_iteration ::
  "('x, 'y, 'o, 's) framework \<Rightarrow> nat \<Rightarrow> 'x \<times> 'y \<Rightarrow> 's train_state \<times> real
     \<Rightarrow> 's train_state \<times> real" where
  "dropout_iteration fw i data sc =
     (let (st0, current_loss) = sc;
          (inputs, targets) = data;
          w0 = parameters st0;
          st1 = zero_grad st0;
          (outputs, st2) = forward fw inputs st1;
          (loss, st3) = criterion fw outputs targets st2;
          st4 = backward fw loss st3;
          st5 = optimizer_step fw dropout_optimizer st4;
          current_loss = current_loss + loss w0
      in if i mod 500 = 499
         then (print (Printf ''Loss after mini-batch %5d: %.3f''
                        [Int_arg (i + 1), Float_arg (current_loss / 500)]) st5, 0)
         else (st5, current_loss))"

definition dropout_batches ::
  "('x, 'y, 'o, 's) framework \<Rightarrow> nat \<Rightarrow> ('x \<times> 'y) list \<Rightarrow> 's train_state
     \<Rightarrow> 's train_state \<times> real" where
  "dropout_batches fw epoch trainloader st =
     enumerate_loop (dropout_iteration fw) 0 trainloader
       (print (Printf ''Starting epoch {}'' [Int_arg (epoch + 1)]) st, 0)"

definition dropout_epoch ::
  "('x, 'y, 'o, 's) framework \<Rightarrow> nat \<Rightarrow> ('x \<times> 'y) list \<Rightarrow> 's train_state \<Rightarrow> 's train_state" where
  "dropout_epoch fw epoch trainloader st = fst (dropout_batches fw epoch trainloader st)"

definition dropout_main ::
  "('x, 'y, 'o, 's) framework \<Rightarrow> (nat \<Rightarrow> ('x \<times> 'y) list) \<Rightarrow> 's train_state \<Rightarrow> 's train_state" where
  "dropout_main fw trainloader st =
     print (Printf ''Training process has finished.'' [])
       (foldl (\<lambda>st epoch. dropout_epoch fw epoch (trainloader epoch) st) st [0..<5])"

section \<open>The ConvNet notebook\<close>

definition convnet_optimizer :: optimizer where
  "convnet_optimizer = Adam (1 / 10 ^ 4)"

definition convnet_iteration ::
  "('x, 'y, 'o, 's) framework \<Rightarrow> nat \<Rightarrow> 'x \<times> 'y \<Rightarrow> 's train_state \<times> real
     \<Rightarrow> 's train_state \<times> real" where
  "convnet_iteration fw i data sc =
     (let (st0, current_loss) = sc;
          (inputs, targets) = data;
          w0 = parameters st0;
          st1 = zero_grad st0;
          (outputs, st2) = forward fw inputs st1;
          (loss, st3) = criterion fw outputs targets st2;
          st4 = backward fw loss st3;
          st5 = optimizer_step fw convnet_optimizer st4;
          current_loss = current_loss + loss w0
      in if i mod 500 = 499
         then (print (Printf ''Loss after mini-batch %5d: %.6f''
                        [Int_arg (i + 1), Float_arg (current_loss / 500)]) st5, 0)
         else (st5, current_loss))"

definition convnet_batches ::
  "('x, 'y, 'o, 's) framework \<Rightarrow> nat \<Rightarrow> ('x \<times> 'y) list \<Rightarrow> 's train_state
     \<Rightarrow> 's train_state \<times> real" where
  "convnet_batches fw epoch trainloader st =
     enumerate_loop (convnet_iteration fw) 0 trainloader
       (print (Printf ''Starting epoch {}'' [Int_arg (epoch + 1)]) st, 0)"

definition convnet_epoch ::
  "('x, 'y, 'o, 's) framework \<Rightarrow> nat \<Rightarrow> ('x \<times> 'y) list \<Rightarrow> 's train_state \<Rightarrow> 's train_state" where
  "convnet_epoch fw epoch trainloader st = fst (convnet_batches fw epoch trainloader st)"

definition convnet_main ::
  "('x, 'y, 'o, 's) framework \<Rightarrow> (nat \<Rightarrow> ('x \<times> 'y) list) \<Rightarrow> 's train_state \<Rightarrow> 's train_state" where
  "convnet_main fw trainloader st =
     print (Printf ''Training process has finished.'' [])
       (foldl (\<lambda>st epoch. convnet_epoch fw epoch (trainloader epoch) st) st [0..<3])"

section \<open>Layer stacks and the shapes that flow through them\<close>

text \<open>
  The layer stacks are declared in the notebooks; what a layer does to the shape of
  its input is the framework's rule (stride 1 for a convolution, flattening from
  dimension 1). A shape is \<open>[N, C, H, W]\<close> or \<open>[N, features]\<close>, and a layer that
  the framework would refuse gives \<open>None\<close>.
\<close>

datatype layer =
    Conv2d nat nat nat nat
  | ReLU
  | MaxPool2d nat nat
  | Flatten
  | Linear nat nat
  | Dropout real

fun layer_shape :: "layer \<Rightarrow> nat list \<Rightarrow> nat list option" where
  "layer_shape (Conv2d c_in c_out k p) [n, c, h, w] =
     (if c = c_in \<and> k \<le> h + 2 * p \<and> k \<le> w + 2 * p
      then Some [n, c_out, h + 2 * p - k + 1, w + 2 * p - k + 1] else None)"
| "layer_shape (Conv2d c_in c_out k p) s = None"
| "layer_shape ReLU s = Some s"
| "layer_shape (MaxPool2d k stride) [n, c, h, w] =
     (if 0 < stride \<and> k \<le> h \<and> k \<le> w
      then Some [n, c, (h - k) div stride + 1, (w - k) div stride + 1] else None)"
| "layer_shape (MaxPool2d k stride) s = None"
| "layer_shape Flatten (n # d # ds) = Some [n, prod_list (d # ds)]"
| "layer_shape Flatten s = None"
| "layer_shape (Linear f_in f_out) s =
     (if s \<noteq> [] \<and> last s = f_in then Some (butlast s @ [f_out]) else None)"
| "layer_shape (Dropout p) s = Some s"

text \<open>\<^verbatim>\<open>nn.Sequential\<close>: the shape after each layer, in order.\<close>

fun sequential_shapes :: "layer list \<Rightarrow> nat list \<Rightarrow> nat list list option" where
  "sequential_shapes [] s = Some []"
| "sequential_shapes (l # ls) s =
     (case layer_shape l s of
        None \<Rightarrow> None
      | Some s' \<Rightarrow> map_option ((#) s') (sequential_shapes ls s'))"

definition forward_shape :: "layer list \<Rightarrow> nat list \<Rightarrow> nat list option" where
  "forward_shape ls s = map_option (\<lambda>ss. last (s # ss)) (sequential_shapes ls s)"

definition ConvNet :: "layer list" where
  "ConvNet =
     [Conv2d 1 10 3 0, ReLU, Conv2d 10 5 3 0, ReLU, Flatten,
      Linear (24 * 24 * 5) 64, ReLU, Linear 64 32, ReLU, Linear 32 10]"

definition ConvNet2 :: "nat \<Rightarrow> nat \<Rightarrow> real \<Rightarrow> layer list" where
  "ConvNet2 num_of_input_channels num_of_classes dropout_prob =
     [Conv2d num_of_input_channels 32 3 0, ReLU, MaxPool2d 2 2,
      Conv2d 32 64 3 0, ReLU, MaxPool2d 2 2,
      Conv2d 64 128 3 1, ReLU, MaxPool2d 2 2,
      Conv2d 128 64 3 1, ReLU, MaxPool2d 2 2,
      Flatten, Linear 64 128, ReLU, Dropout dropout_prob, Linear 128 num_of_classes]"

section \<open>Observing a run\<close>

text \<open>
  A loss report is a printed line whose values start with the mini-batch number and
  a loss figure; the epoch header and the closing line are not reports.
\<close>

fun loss_report :: "line \<Rightarrow> (nat \<times> real) option" where
  "loss_report (Printf f (Int_arg n # Float_arg v # rest)) = Some (n, v)"
| "loss_report l = None"

definition loss_reports :: "line list \<Rightarrow> (nat \<times> real) list" where
  "loss_reports ls = List.map_filter loss_report ls"

text \<open>What a run from \<open>st\<close> to \<open>st'\<close> added: reports, backpropagated losses, phases.\<close>

definition reports_since :: "'s train_state \<Rightarrow> 's train_state \<Rightarrow> (nat \<times> real) list" where
  "reports_since st st' = loss_reports (drop (length (stdout st)) (stdout st'))"

definition losses_since :: "'s train_state \<Rightarrow> 's train_state \<Rightarrow> real list" where
  "losses_since st st' = backprop_values (drop (length (trace st)) (trace st'))"

definition phases_since :: "'s train_state \<Rightarrow> 's train_state \<Rightarrow> phase list" where
  "phases_since st st' = map phase_of (drop (length (trace st)) (trace st'))"

text \<open>
  Two ways of reporting the losses \<open>ls\<close> of an epoch after every 500th mini-batch:
  the loss of that mini-batch alone, or the mean of the losses accumulated since the
  previous report.
\<close>

definition minibatch_reports :: "real list \<Rightarrow> (nat \<times> real) list" where
  "minibatch_reports ls =
     map (\<lambda>k. (500 * (k + 1), ls ! (500 * k + 499))) [0..<length ls div 500]"

definition running_reports :: "real list \<Rightarrow> (nat \<times> real) list" where
  "running_reports ls =
     map (\<lambda>k. (500 * (k + 1), sum_list (take 500 (drop (500 * k) ls)) / 500))
       [0..<length ls div 500]"

definition training_cycle :: "phase list" where
  "training_cycle = [ZeroGrad, ForwardPass, ComputeLoss, BackwardPass, OptimizerStep]"

text \<open>
  A small framework and data set on which the loops can be run by hand: the network
  returns its input, the loss function returns the network's output, gradients are
  zero and the optimizer leaves the parameters alone. Five hundred mini-batches, the
  first 499 with loss 1 and the last with loss 2, and one parameter tensor of zeros.
\<close>

definition demo_fw :: "(real, unit, real, unit) framework" where
  "demo_fw = \<lparr>net = (\<lambda>s x. ((\<lambda>w. x), s)),
              loss_function = (\<lambda>out y. out),
              autograd = (\<lambda>f w. map (\<lambda>t. t\<lparr>elems := map (\<lambda>e. 0) (elems t)\<rparr>) w),
              optimizer_update = (\<lambda>opt s w g. (w, s))\<rparr>"

definition demo_state :: "unit train_state" where
  "demo_state = \<lparr>parameters = [\<lparr>shape = [2], elems = [0, 0]\<rparr>], grad = None,
                 fw_state = (), stdout = [], trace = []\<rparr>"

definition demo_batches :: "(real \<times> unit) list" where
  "demo_batches = replicate 499 (1, ()) @ [(2, ())]"

section \<open>The penalty terms as the library computes them\<close>

text \<open>
  Two things the penalty helpers above leave out matter once the penalty is compared
  across lists of tensors: \<^verbatim>\<open>torch.cat\<close> raises on an empty list, and the tensors
  hold 32-bit floats, so every addition of \<^verbatim>\<open>.sum()\<close> is rounded.
\<close>

datatype torch_error = Empty_tensor_list

definition torch_cat :: "tensor list \<Rightarrow> torch_error + tensor" where
  "torch_cat ts = (if ts = [] then Inl Empty_tensor_list else Inr (cat ts))"

text \<open>
  Rounding of a real number to the nearest 32-bit float, ties to the even mantissa
  (24 significant bits, least exponent \<open>-126\<close>); magnitudes of \<open>2^128\<close> and more,
  which overflow, are outside the definition. \<open>bit_length n\<close> is the number of binary
  digits of \<open>n\<close>.
\<close>

fun bit_length :: "nat \<Rightarrow> nat" where
  "bit_length n = (if n = 0 then 0 else Suc (bit_length (n div 2)))"

declare bit_length.simps [simp del]

definition f32_exponent :: "real \<Rightarrow> int" where
  "f32_exponent x =
     max (- 126)
       (if 1 \<le> \<bar>x\<bar> then int (bit_length (nat \<lfloor>\<bar>x\<bar>\<rfloor>)) - 1
        else - int (bit_length (nat (\<lceil>1 / \<bar>x\<bar>\<rceil> - 1))))"

definition f32_round :: "real \<Rightarrow> real" where
  "f32_round x =
     (if x = 0 then 0
      else let ulp = 2 powi (f32_exponent x - 23);
               q = \<bar>x\<bar> / ulp;
               f = \<lfloor>q\<rfloor>;
               n = (if q - of_int f < 1 / 2 then f
                    else if 1 / 2 < q - of_int f then f + 1
                    else if even f then f else f + 1)
           in sgn x * of_int n * ulp)"

definition f32_add :: "real \<Rightarrow> real \<Rightarrow> real" where
  "f32_add a b = f32_round (a + b)"

text \<open>
  \<^verbatim>\<open>.sum()\<close> on a tensor of 32-bit floats, the elements added one after the other
  from the first, and \<^verbatim>\<open>torch.abs(w).sum()\<close> on such a tensor.
\<close>

definition torch_sum_f32 :: "tensor \<Rightarrow> real" where
  "torch_sum_f32 w = foldl f32_add 0 (elems w)"

definition compute_l1_loss_f32 :: "tensor \<Rightarrow> real" where
  "compute_l1_loss_f32 w = torch_sum_f32 (torch_abs w)"

section \<open>Facts about the penalty terms\<close>

lemma flattened_map: "flattened ps = map view_flat ps"
proof -
  have "foldl (\<lambda>acc parameter. acc @ [view_flat parameter]) acc ps = acc @ map view_flat ps"
    for acc
    by (induction ps arbitrary: acc) simp_all
  then show ?thesis by (simp add: flattened_def)
qed

lemma elems_cat_flattened: "elems (cat (flattened ps)) = concat (map elems ps)"
  by (simp add: flattened_map cat_def view_flat_def comp_def)

lemma compute_l1_loss_sum: "compute_l1_loss w = (\<Sum>e\<leftarrow>elems w. \<bar>e\<bar>)"
  by (simp add: compute_l1_loss_def torch_sum_def torch_abs_def)

lemma compute_l2_loss_sum: "compute_l2_loss w = (\<Sum>e\<leftarrow>elems w. e\<^sup>2)"
  by (simp add: compute_l2_loss_def torch_sum_def torch_square_def power2_eq_square)

lemma l1_cat_additive:
  "compute_l1_loss (cat (flattened ps)) = (\<Sum>p\<leftarrow>ps. compute_l1_loss p)"
  unfolding compute_l1_loss_sum elems_cat_flattened
  by (induction ps) simp_all

lemma l2_cat_additive:
  "compute_l2_loss (cat (flattened ps)) = (\<Sum>p\<leftarrow>ps. compute_l2_loss p)"
  unfolding compute_l2_loss_sum elems_cat_flattened
  by (induction ps) simp_all

section \<open>Facts about the loops\<close>

subsection \<open>One iteration, one more element of the data\<close>

lemma enumerate_loop_snoc:
  "enumerate_loop body i (ds @ [d]) st = body (i + length ds) d (enumerate_loop body i ds st)"
  by (induction ds arbitrary: i st) simp_all

lemma backprop_values_append:
  "backprop_values (a @ b) = backprop_values a @ backprop_values b"
  by (induction a rule: backprop_values.induct) simp_all

lemma loss_reports_append: "loss_reports (a @ b) = loss_reports a @ loss_reports b"
  by (simp add: loss_reports_def List.map_filter_def)

lemma l1_iteration_trace:
  "trace (l1_iteration fw i (inputs, targets) st) =
     trace st @ [Zero_grad, Forward, Loss_function,
       Backward (loss_function fw (fst (net fw (fw_state st) inputs) (parameters st)) targets
                 + 1 * compute_l1_loss (cat (flattened (parameters st)))),
       Optimizer_step]"
  by (simp add: l1_iteration_def Let_def zero_grad_def forward_def criterion_def backward_def
      optimizer_step_def print_def split: prod.splits)

lemma l1_iteration_stdout:
  "stdout (l1_iteration fw i (inputs, targets) st) =
     stdout st @ (if i mod 500 = 499 then
       [Printf ''Loss after mini-batch %5d: %.5f (of which %.5f L1 loss)''
          [Int_arg (i + 1),
           Float_arg (loss_function fw (fst (net fw (fw_state st) inputs) (parameters st)) targets
                 + 1 * compute_l1_loss (cat (flattened (parameters st)))),
           Float_arg (1 * compute_l1_loss (cat (flattened (parameters st))))]] else [])"
  by (simp add: l1_iteration_def Let_def zero_grad_def forward_def criterion_def backward_def
      optimizer_step_def print_def split: prod.splits)

lemma l1_iteration_grad:
  "grad (l1_iteration fw i (inputs, targets) st) =
     Some (autograd fw
       (\<lambda>w. loss_function fw (fst (net fw (fw_state st) inputs) w) targets
                 + 1 * compute_l1_loss (cat (flattened w))) (parameters st))"
  by (simp add: l1_iteration_def Let_def zero_grad_def forward_def criterion_def backward_def
      optimizer_step_def print_def split: prod.splits)

subsection \<open>Arithmetic of the report period\<close>

lemma div_Suc_last: "n mod 500 = 499 \<Longrightarrow> Suc n div 500 = Suc (n div 500)"
  by (simp add: div_Suc mod_Suc)

lemma div_Suc_other: "n mod 500 \<noteq> 499 \<Longrightarrow> Suc n div 500 = n div 500"
  by (simp add: div_Suc mod_Suc)

lemma last_index: "n mod 500 = 499 \<Longrightarrow> 500 * (n div 500) + 499 = (n::nat)"
  using div_mult_mod_eq [of n 500] by simp

subsection \<open>A loop whose body reports the loss of its own mini-batch\<close>

lemma concat_replicate_Suc_snoc:
  "concat (replicate (Suc n) c) = concat (replicate n c) @ c"
  by (induction n) simp_all

lemma plain_loop:
  fixes body :: "nat \<Rightarrow> 'd \<Rightarrow> 's train_state \<Rightarrow> 's train_state"
  assumes step: "\<And>i d st. \<exists>v f r.
      trace (body i d st) = trace st @ [Zero_grad, Forward, Loss_function, Backward v, Optimizer_step]
    \<and> stdout (body i d st) = stdout st @
          (if i mod 500 = 499 then [Printf f (Int_arg (i + 1) # Float_arg v # r)] else [])"
  shows "\<exists>T Q. trace (enumerate_loop body 0 ds st) = trace st @ T
     \<and> stdout (enumerate_loop body 0 ds st) = stdout st @ Q
     \<and> map phase_of T = concat (replicate (length ds) training_cycle)
     \<and> length (backprop_values T) = length ds
     \<and> length Q = length ds div 500
     \<and> loss_reports Q =
         map (\<lambda>k. (500 * (k + 1), backprop_values T ! (500 * k + 499))) [0..<length ds div 500]"
proof (induction ds rule: rev_induct)
  case Nil
  show ?case by (simp add: loss_reports_def List.map_filter_def)
next
  case (snoc d ds)
  let ?n = "length ds"
  let ?st = "enumerate_loop body 0 ds st"
  from snoc obtain T Q where
    T: "trace ?st = trace st @ T" and Q: "stdout ?st = stdout st @ Q"
    and ph: "map phase_of T = concat (replicate ?n training_cycle)"
    and len: "length (backprop_values T) = ?n"
    and lenQ: "length Q = ?n div 500"
    and rep: "loss_reports Q =
         map (\<lambda>k. (500 * (k + 1), backprop_values T ! (500 * k + 499))) [0..<?n div 500]"
    by blast
  from step [of ?n d ?st] obtain v f r where
    tr: "trace (body ?n d ?st) = trace ?st @ [Zero_grad, Forward, Loss_function, Backward v, Optimizer_step]"
    and out: "stdout (body ?n d ?st) = stdout ?st @
          (if ?n mod 500 = 499 then [Printf f (Int_arg (?n + 1) # Float_arg v # r)] else [])"
    by blast
  let ?T = "T @ [Zero_grad, Forward, Loss_function, Backward v, Optimizer_step]"
  let ?Q = "Q @ (if ?n mod 500 = 499 then [Printf f (Int_arg (?n + 1) # Float_arg v # r)] else [])"
  have bp: "backprop_values ?T = backprop_values T @ [v]"
    by (simp add: backprop_values_append)
  have old: "map (\<lambda>k. (500 * (k + 1), (backprop_values T @ [v]) ! (500 * k + 499))) [0..<?n div 500]
      = map (\<lambda>k. (500 * (k + 1), backprop_values T ! (500 * k + 499))) [0..<?n div 500]"
  proof (rule map_cong [OF refl])
    fix k assume "k \<in> set [0..<?n div 500]"
    then have "500 * k + 499 < ?n" by simp
    then show "(500 * (k + 1), (backprop_values T @ [v]) ! (500 * k + 499))
        = (500 * (k + 1), backprop_values T ! (500 * k + 499))"
      by (simp add: nth_append len)
  qed
  have e1: "trace (enumerate_loop body 0 (ds @ [d]) st) = trace st @ ?T"
    by (simp add: enumerate_loop_snoc tr T)
  have e2: "stdout (enumerate_loop body 0 (ds @ [d]) st) = stdout st @ ?Q"
    by (simp add: enumerate_loop_snoc out Q)
  have e3: "map phase_of ?T = concat (replicate (length (ds @ [d])) training_cycle)"
    by (simp add: ph concat_replicate_Suc_snoc del: replicate.simps) (simp add: training_cycle_def)
  have e4: "length (backprop_values ?T) = length (ds @ [d])"
    by (simp add: bp len)
  have lenapp: "length (ds @ [d]) = Suc ?n" by simp
  have e5: "length ?Q = length (ds @ [d]) div 500"
  proof (cases "?n mod 500 = 499")
    case True
    then have "Suc ?n div 500 = Suc (?n div 500)" by (rule div_Suc_last)
    then have "length (ds @ [d]) div 500 = Suc (length Q)"
      unfolding lenapp lenQ .
    moreover have "length ?Q = Suc (length Q)"
      unfolding if_P [OF True] by simp
    ultimately show ?thesis by (rule ssubst)
  next
    case False
    then have "Suc ?n div 500 = ?n div 500" by (rule div_Suc_other)
    then have "length (ds @ [d]) div 500 = length Q"
      unfolding lenapp lenQ .
    moreover have "length ?Q = length Q"
      unfolding if_not_P [OF False] by simp
    ultimately show ?thesis by (rule ssubst)
  qed
  have e6: "loss_reports ?Q =
         map (\<lambda>k. (500 * (k + 1), backprop_values ?T ! (500 * k + 499))) [0..<length (ds @ [d]) div 500]"
  proof (cases "?n mod 500 = 499")
    case True
    then have d: "Suc ?n div 500 = Suc (?n div 500)" and n: "500 * (?n div 500) + 499 = ?n"
      by (rule div_Suc_last, rule last_index)
    have last: "(backprop_values T @ [v]) ! (500 * (?n div 500) + 499) = v"
      unfolding n by (simp add: nth_append len)
    have num: "500 * (?n div 500 + 1) = ?n + 1"
    proof -
      have "500 * (?n div 500 + 1) = (500 * (?n div 500) + 499) + 1" by simp
      then show ?thesis unfolding n .
    qed
    have "loss_reports ?Q = loss_reports Q @ [(?n + 1, v)]"
      unfolding if_P [OF True] loss_reports_append
      by (simp add: loss_reports_def List.map_filter_def)
    also have "\<dots> = map (\<lambda>k. (500 * (k + 1), (backprop_values T @ [v]) ! (500 * k + 499)))
                      ([0..<?n div 500] @ [?n div 500])"
      unfolding map_append rep old by (simp only: list.map last num)
    also have "[0..<?n div 500] @ [?n div 500] = [0..<length (ds @ [d]) div 500]"
      unfolding lenapp d by simp
    finally show ?thesis unfolding bp .
  next
    case False
    then have d: "Suc ?n div 500 = ?n div 500" by (rule div_Suc_other)
    have "loss_reports ?Q = loss_reports Q"
      unfolding if_not_P [OF False] by simp
    also have "\<dots> = map (\<lambda>k. (500 * (k + 1), (backprop_values T @ [v]) ! (500 * k + 499)))
                      [0..<?n div 500]"
      unfolding rep old ..
    also have "[0..<?n div 500] = [0..<length (ds @ [d]) div 500]"
      unfolding lenapp d ..
    finally show ?thesis unfolding bp .
  qed
  from e1 e2 e3 e4 e5 e6 show ?case by blast
qed


subsection \<open>A loop whose body accumulates the loss between reports\<close>

lemma loss_reports_single:
  "loss_reports [Printf f (Int_arg n # Float_arg v # r)] = [(n, v)]"
  by (simp add: loss_reports_def List.map_filter_def)

lemma block_start_le: "500 * (n div 500) \<le> (n::nat)"
  by simp

lemma accum_loop:
  fixes body :: "nat \<Rightarrow> 'd \<Rightarrow> 's train_state \<times> real \<Rightarrow> 's train_state \<times> real"
  assumes step: "\<And>i d st c. \<exists>v f.
      trace (fst (body i d (st, c))) =
        trace st @ [Zero_grad, Forward, Loss_function, Backward v, Optimizer_step]
    \<and> stdout (fst (body i d (st, c))) = stdout st @
          (if i mod 500 = 499 then [Printf f [Int_arg (i + 1), Float_arg ((c + v) / 500)]] else [])
    \<and> snd (body i d (st, c)) = (if i mod 500 = 499 then 0 else c + v)"
  shows "\<exists>T Q. trace (fst (enumerate_loop body 0 ds (st, 0))) = trace st @ T
     \<and> stdout (fst (enumerate_loop body 0 ds (st, 0))) = stdout st @ Q
     \<and> map phase_of T = concat (replicate (length ds) training_cycle)
     \<and> length (backprop_values T) = length ds
     \<and> length Q = length ds div 500
     \<and> loss_reports Q =
         map (\<lambda>k. (500 * (k + 1), sum_list (take 500 (drop (500 * k) (backprop_values T))) / 500))
           [0..<length ds div 500]
     \<and> snd (enumerate_loop body 0 ds (st, 0)) =
         sum_list (drop (500 * (length ds div 500)) (backprop_values T))"
proof (induction ds rule: rev_induct)
  case Nil
  show ?case by (simp add: loss_reports_def List.map_filter_def)
next
  case (snoc d ds)
  let ?n = "length ds"
  let ?R = "enumerate_loop body 0 ds (st, 0)"
  let ?st = "fst ?R"
  let ?c = "snd ?R"
  from snoc obtain T Q where
    T: "trace ?st = trace st @ T" and Q: "stdout ?st = stdout st @ Q"
    and ph: "map phase_of T = concat (replicate ?n training_cycle)"
    and len: "length (backprop_values T) = ?n"
    and lenQ: "length Q = ?n div 500"
    and rep: "loss_reports Q =
         map (\<lambda>k. (500 * (k + 1), sum_list (take 500 (drop (500 * k) (backprop_values T))) / 500))
           [0..<?n div 500]"
    and acc: "?c = sum_list (drop (500 * (?n div 500)) (backprop_values T))"
    by blast
  have R: "enumerate_loop body 0 (ds @ [d]) (st, 0) = body ?n d (?st, ?c)"
    by (simp add: enumerate_loop_snoc)
  from step [of ?n d ?st ?c] obtain v f where
    tr: "trace (fst (body ?n d (?st, ?c))) =
           trace ?st @ [Zero_grad, Forward, Loss_function, Backward v, Optimizer_step]"
    and out: "stdout (fst (body ?n d (?st, ?c))) = stdout ?st @
          (if ?n mod 500 = 499 then [Printf f [Int_arg (?n + 1), Float_arg ((?c + v) / 500)]] else [])"
    and cl: "snd (body ?n d (?st, ?c)) = (if ?n mod 500 = 499 then 0 else ?c + v)"
    by blast
  let ?L = "backprop_values T"
  let ?T = "T @ [Zero_grad, Forward, Loss_function, Backward v, Optimizer_step]"
  let ?Q = "Q @ (if ?n mod 500 = 499 then [Printf f [Int_arg (?n + 1), Float_arg ((?c + v) / 500)]] else [])"
  have bp: "backprop_values ?T = ?L @ [v]"
    by (simp add: backprop_values_append)
  have old: "map (\<lambda>k. (500 * (k + 1), sum_list (take 500 (drop (500 * k) (?L @ [v]))) / 500))
               [0..<?n div 500]
      = map (\<lambda>k. (500 * (k + 1), sum_list (take 500 (drop (500 * k) ?L)) / 500)) [0..<?n div 500]"
  proof (rule map_cong [OF refl])
    fix k assume "k \<in> set [0..<?n div 500]"
    then have "500 * k + 500 \<le> ?n" by simp
    then have "take 500 (drop (500 * k) (?L @ [v])) = take 500 (drop (500 * k) ?L)"
      by (simp add: len)
    then show "(500 * (k + 1), sum_list (take 500 (drop (500 * k) (?L @ [v]))) / 500)
        = (500 * (k + 1), sum_list (take 500 (drop (500 * k) ?L)) / 500)"
      by (simp only:)
  qed
  have grow: "drop (500 * (?n div 500)) (?L @ [v]) = drop (500 * (?n div 500)) ?L @ [v]"
    using block_start_le [of ?n] by (simp add: len)
  have e1: "trace (fst (enumerate_loop body 0 (ds @ [d]) (st, 0))) = trace st @ ?T"
    unfolding R tr T by simp
  have e2: "stdout (fst (enumerate_loop body 0 (ds @ [d]) (st, 0))) = stdout st @ ?Q"
    unfolding R out Q by simp
  have e3: "map phase_of ?T = concat (replicate (length (ds @ [d])) training_cycle)"
    by (simp add: ph concat_replicate_Suc_snoc del: replicate.simps) (simp add: training_cycle_def)
  have e4: "length (backprop_values ?T) = length (ds @ [d])"
    by (simp add: bp len)
  have lenapp: "length (ds @ [d]) = Suc ?n" by simp
  have e5: "length ?Q = length (ds @ [d]) div 500"
  proof (cases "?n mod 500 = 499")
    case True
    then have "Suc ?n div 500 = Suc (?n div 500)" by (rule div_Suc_last)
    then have "length (ds @ [d]) div 500 = Suc (length Q)"
      unfolding lenapp lenQ .
    moreover have "length ?Q = Suc (length Q)"
      unfolding if_P [OF True] by simp
    ultimately show ?thesis by (rule ssubst)
  next
    case False
    then have "Suc ?n div 500 = ?n div 500" by (rule div_Suc_other)
    then have "length (ds @ [d]) div 500 = length Q"
      unfolding lenapp lenQ .
    moreover have "length ?Q = length Q"
      unfolding if_not_P [OF False] by simp
    ultimately show ?thesis by (rule ssubst)
  qed
  have e6: "loss_reports ?Q =
         map (\<lambda>k. (500 * (k + 1), sum_list (take 500 (drop (500 * k) (backprop_values ?T))) / 500))
           [0..<length (ds @ [d]) div 500]"
  proof (cases "?n mod 500 = 499")
    case True
    then have d: "Suc ?n div 500 = Suc (?n div 500)" and n: "500 * (?n div 500) + 499 = ?n"
      by (rule div_Suc_last, rule last_index)
    have "length (drop (500 * (?n div 500)) ?L) = 499"
      using n by (simp add: len)
    then have "take 500 (drop (500 * (?n div 500)) (?L @ [v])) = drop (500 * (?n div 500)) ?L @ [v]"
      unfolding grow by simp
    then have last: "sum_list (take 500 (drop (500 * (?n div 500)) (?L @ [v]))) = ?c + v"
      by (simp add: acc)
    have num: "500 * (?n div 500 + 1) = ?n + 1"
    proof -
      have "500 * (?n div 500 + 1) = (500 * (?n div 500) + 499) + 1" by simp
      then show ?thesis unfolding n .
    qed
    have "loss_reports ?Q = loss_reports Q @ [(?n + 1, (?c + v) / 500)]"
      unfolding if_P [OF True] loss_reports_append loss_reports_single ..
    also have "\<dots> = map (\<lambda>k. (500 * (k + 1), sum_list (take 500 (drop (500 * k) (?L @ [v]))) / 500))
                      ([0..<?n div 500] @ [?n div 500])"
      unfolding map_append rep old by (simp only: list.map last num)
    also have "[0..<?n div 500] @ [?n div 500] = [0..<length (ds @ [d]) div 500]"
      unfolding lenapp d by simp
    finally show ?thesis unfolding bp .
  next
    case False
    then have d: "Suc ?n div 500 = ?n div 500" by (rule div_Suc_other)
    have "loss_reports ?Q = loss_reports Q"
      unfolding if_not_P [OF False] by simp
    also have "\<dots> = map (\<lambda>k. (500 * (k + 1), sum_list (take 500 (drop (500 * k) (?L @ [v]))) / 500))
                      [0..<?n div 500]"
      unfolding rep old ..
    also have "[0..<?n div 500] = [0..<length (ds @ [d]) div 500]"
      unfolding lenapp d ..
    finally show ?thesis unfolding bp .
  qed
  have e7: "snd (enumerate_loop body 0 (ds @ [d]) (st, 0)) =
         sum_list (drop (500 * (length (ds @ [d]) div 500)) (backprop_values ?T))"
  proof (cases "?n mod 500 = 499")
    case True
    then have d: "Suc ?n div 500 = Suc (?n div 500)" and n: "500 * (?n div 500) + 499 = ?n"
      by (rule div_Suc_last, rule last_index)
    have "500 * Suc (?n div 500) = Suc ?n"
    proof -
      have "500 * Suc (?n div 500) = Suc (500 * (?n div 500) + 499)" by simp
      then show ?thesis unfolding n .
    qed
    then have "drop (500 * (length (ds @ [d]) div 500)) (?L @ [v]) = []"
      unfolding lenapp d by (simp add: len)
    then show ?thesis unfolding R cl bp if_P [OF True] by simp
  next
    case False
    then have d: "Suc ?n div 500 = ?n div 500" by (rule div_Suc_other)
    show ?thesis unfolding R cl bp if_not_P [OF False] lenapp d grow
      by (simp add: acc)
  qed
  from e1 e2 e3 e4 e5 e6 e7 show ?case by blast
qed


subsection \<open>An epoch: the header, then the loop\<close>

lemma loss_report_header: "loss_reports (Printf f [Int_arg e] # ls) = loss_reports ls"
  by (simp add: loss_reports_def List.map_filter_def)

lemma plain_epoch:
  fixes body :: "nat \<Rightarrow> 'd \<Rightarrow> 's train_state \<Rightarrow> 's train_state"
  assumes step: "\<And>i d st. \<exists>v f r.
      trace (body i d st) = trace st @ [Zero_grad, Forward, Loss_function, Backward v, Optimizer_step]
    \<and> stdout (body i d st) = stdout st @
          (if i mod 500 = 499 then [Printf f (Int_arg (i + 1) # Float_arg v # r)] else [])"
  defines "run \<equiv> (\<lambda>e ds st. enumerate_loop body 0 ds (print (Printf ''Starting epoch {}'' [Int_arg e]) st))"
  shows "phases_since st (run e ds st) = concat (replicate (length ds) training_cycle)"
    and "length (losses_since st (run e ds st)) = length ds"
    and "reports_since st (run e ds st) =
         map (\<lambda>k. (500 * (k + 1), losses_since st (run e ds st) ! (500 * k + 499)))
           [0..<length ds div 500]"
    and "length (stdout (run e ds st)) = length (stdout st) + 1 + length ds div 500"
proof -
  let ?h = "print (Printf ''Starting epoch {}'' [Int_arg e]) st"
  from plain_loop [of body ds ?h, OF step] obtain T Q where
    T: "trace (run e ds st) = trace ?h @ T" and Q: "stdout (run e ds st) = stdout ?h @ Q"
    and ph: "map phase_of T = concat (replicate (length ds) training_cycle)"
    and len: "length (backprop_values T) = length ds"
    and lenQ: "length Q = length ds div 500"
    and rep: "loss_reports Q =
         map (\<lambda>k. (500 * (k + 1), backprop_values T ! (500 * k + 499))) [0..<length ds div 500]"
    unfolding run_def by blast
  have T': "drop (length (trace st)) (trace (run e ds st)) = T"
    by (simp add: T print_def)
  have Q': "drop (length (stdout st)) (stdout (run e ds st)) = Printf ''Starting epoch {}'' [Int_arg e] # Q"
    by (simp add: Q print_def)
  show "phases_since st (run e ds st) = concat (replicate (length ds) training_cycle)"
    unfolding phases_since_def T' by (rule ph)
  show "length (losses_since st (run e ds st)) = length ds"
    unfolding losses_since_def T' by (rule len)
  show "reports_since st (run e ds st) =
         map (\<lambda>k. (500 * (k + 1), losses_since st (run e ds st) ! (500 * k + 499)))
           [0..<length ds div 500]"
    unfolding reports_since_def losses_since_def T' Q' loss_report_header by (rule rep)
  show "length (stdout (run e ds st)) = length (stdout st) + 1 + length ds div 500"
    by (simp add: Q print_def lenQ)
qed

lemma l1_step: "\<exists>v f r.
      trace (l1_iteration fw i d st) = trace st @ [Zero_grad, Forward, Loss_function, Backward v, Optimizer_step]
    \<and> stdout (l1_iteration fw i d st) = stdout st @
          (if i mod 500 = 499 then [Printf f (Int_arg (i + 1) # Float_arg v # r)] else [])"
proof (cases d)
  case (Pair inputs targets)
  show ?thesis unfolding Pair l1_iteration_trace l1_iteration_stdout by blast
qed

subsection \<open>The iterations of the other notebooks\<close>

lemmas iteration_defs = Let_def zero_grad_def forward_def criterion_def backward_def
      optimizer_step_def print_def

lemma l2_iteration_trace:
  "trace (l2_iteration fw i (inputs, targets) st) =
     trace st @ [Zero_grad, Forward, Loss_function,
       Backward (loss_function fw (fst (net fw (fw_state st) inputs) (parameters st)) targets
                 + 1 * compute_l2_loss (cat (flattened (parameters st)))),
       Optimizer_step]"
  by (simp add: l2_iteration_def iteration_defs split: prod.splits)

lemma l2_iteration_stdout:
  "stdout (l2_iteration fw i (inputs, targets) st) =
     stdout st @ (if i mod 500 = 499 then
       [Printf ''Loss after mini-batch %5d: %.5f (of which %.5f l2 loss)''
          [Int_arg (i + 1),
           Float_arg (loss_function fw (fst (net fw (fw_state st) inputs) (parameters st)) targets
                 + 1 * compute_l2_loss (cat (flattened (parameters st)))),
           Float_arg (1 * compute_l2_loss (cat (flattened (parameters st))))]] else [])"
  by (simp add: l2_iteration_def iteration_defs split: prod.splits)

lemma l2_iteration_grad:
  "grad (l2_iteration fw i (inputs, targets) st) =
     Some (autograd fw
       (\<lambda>w. loss_function fw (fst (net fw (fw_state st) inputs) w) targets
                 + 1 * compute_l2_loss (cat (flattened w))) (parameters st))"
  by (simp add: l2_iteration_def iteration_defs split: prod.splits)

lemma elastic_iteration_trace:
  "trace (elastic_iteration fw i (inputs, targets) st) =
     trace st @ [Zero_grad, Forward, Loss_function,
       Backward (loss_function fw (fst (net fw (fw_state st) inputs) (parameters st)) targets
                 + 3 / 10 * compute_l1_loss (cat (flattened (parameters st)))
                 + 7 / 10 * compute_l2_loss (cat (flattened (parameters st)))),
       Optimizer_step]"
  by (simp add: elastic_iteration_def iteration_defs split: prod.splits)

lemma elastic_iteration_stdout:
  "stdout (elastic_iteration fw i (inputs, targets) st) =
     stdout st @ (if i mod 500 = 499 then
       [Printf ''Loss after mini-batch %5d: %.5f (of which %.5f L1 loss; %0.5f L2 loss)''
          [Int_arg (i + 1),
           Float_arg (loss_function fw (fst (net fw (fw_state st) inputs) (parameters st)) targets
                 + 3 / 10 * compute_l1_loss (cat (flattened (parameters st)))
                 + 7 / 10 * compute_l2_loss (cat (flattened (parameters st)))),
           Float_arg (3 / 10 * compute_l1_loss (cat (flattened (parameters st)))),
           Float_arg (7 / 10 * compute_l2_loss (cat (flattened (parameters st))))]] else [])"
  by (simp add: elastic_iteration_def iteration_defs split: prod.splits)

lemma elastic_iteration_grad:
  "grad (elastic_iteration fw i (inputs, targets) st) =
     Some (autograd fw
       (\<lambda>w. loss_function fw (fst (net fw (fw_state st) inputs) w) targets
                 + 3 / 10 * compute_l1_loss (cat (flattened w))
                 + 7 / 10 * compute_l2_loss (cat (flattened w))) (parameters st))"
  by (simp add: elastic_iteration_def iteration_defs split: prod.splits)

lemma dropout_iteration_trace:
  "trace (fst (dropout_iteration fw i (inputs, targets) (st, c))) =
     trace st @ [Zero_grad, Forward, Loss_function,
       Backward (loss_function fw (fst (net fw (fw_state st) inputs) (parameters st)) targets),
       Optimizer_step]"
  by (simp add: dropout_iteration_def iteration_defs split: prod.splits)

lemma dropout_iteration_stdout:
  "stdout (fst (dropout_iteration fw i (inputs, targets) (st, c))) =
     stdout st @ (if i mod 500 = 499 then
       [Printf ''Loss after mini-batch %5d: %.3f''
          [Int_arg (i + 1),
           Float_arg ((c + loss_function fw (fst (net fw (fw_state st) inputs) (parameters st)) targets) / 500)]]
       else [])"
  by (simp add: dropout_iteration_def iteration_defs split: prod.splits)

lemma dropout_iteration_current_loss:
  "snd (dropout_iteration fw i (inputs, targets) (st, c)) =
     (if i mod 500 = 499 then 0
      else c + loss_function fw (fst (net fw (fw_state st) inputs) (parameters st)) targets)"
  by (simp add: dropout_iteration_def iteration_defs split: prod.splits)

lemma convnet_iteration_trace:
  "trace (fst (convnet_iteration fw i (inputs, targets) (st, c))) =
     trace st @ [Zero_grad, Forward, Loss_function,
       Backward (loss_function fw (fst (net fw (fw_state st) inputs) (parameters st)) targets),
       Optimizer_step]"
  by (simp add: convnet_iteration_def iteration_defs split: prod.splits)

lemma convnet_iteration_stdout:
  "stdout (fst (convnet_iteration fw i (inputs, targets) (st, c))) =
     stdout st @ (if i mod 500 = 499 then
       [Printf ''Loss after mini-batch %5d: %.6f''
          [Int_arg (i + 1),
           Float_arg ((c + loss_function fw (fst (net fw (fw_state st) inputs) (parameters st)) targets) / 500)]]
       else [])"
  by (simp add: convnet_iteration_def iteration_defs split: prod.splits)

lemma convnet_iteration_current_loss:
  "snd (convnet_iteration fw i (inputs, targets) (st, c)) =
     (if i mod 500 = 499 then 0
      else c + loss_function fw (fst (net fw (fw_state st) inputs) (parameters st)) targets)"
  by (simp add: convnet_iteration_def iteration_defs split: prod.splits)

lemma losses_since_iteration:
  "trace st' = trace st @ [Zero_grad, Forward, Loss_function, Backward v, Optimizer_step]
    \<Longrightarrow> losses_since st st' = [v]"
  by (simp add: losses_since_def)

lemma sum_list_map_mset:
  fixes f :: "'a \<Rightarrow> real"
  shows "mset qs = mset ps \<Longrightarrow> sum_list (map f qs) = sum_list (map f ps)"
proof -
  assume "mset qs = mset ps"
  then have "mset (map f qs) = mset (map f ps)" by simp
  then have "sum_mset (mset (map f qs)) = sum_mset (mset (map f ps))" by (rule arg_cong)
  then show ?thesis by (simp only: sum_mset_sum_list)
qed

lemma accum_epoch:
  fixes body :: "nat \<Rightarrow> 'd \<Rightarrow> 's train_state \<times> real \<Rightarrow> 's train_state \<times> real"
  assumes step: "\<And>i d st c. \<exists>v f.
      trace (fst (body i d (st, c))) =
        trace st @ [Zero_grad, Forward, Loss_function, Backward v, Optimizer_step]
    \<and> stdout (fst (body i d (st, c))) = stdout st @
          (if i mod 500 = 499 then [Printf f [Int_arg (i + 1), Float_arg ((c + v) / 500)]] else [])
    \<and> snd (body i d (st, c)) = (if i mod 500 = 499 then 0 else c + v)"
  defines "run \<equiv> (\<lambda>e ds st.
     enumerate_loop body 0 ds (print (Printf ''Starting epoch {}'' [Int_arg e]) st, 0))"
  shows "phases_since st (fst (run e ds st)) = concat (replicate (length ds) training_cycle)"
    and "length (losses_since st (fst (run e ds st))) = length ds"
    and "reports_since st (fst (run e ds st)) =
         map (\<lambda>k. (500 * (k + 1),
                    sum_list (take 500 (drop (500 * k) (losses_since st (fst (run e ds st))))) / 500))
           [0..<length ds div 500]"
    and "length (stdout (fst (run e ds st))) = length (stdout st) + 1 + length ds div 500"
    and "snd (run e ds st) =
         sum_list (drop (500 * (length ds div 500)) (losses_since st (fst (run e ds st))))"
proof -
  let ?h = "print (Printf ''Starting epoch {}'' [Int_arg e]) st"
  from accum_loop [of body ds ?h, OF step] obtain T Q where
    T: "trace (fst (run e ds st)) = trace ?h @ T"
    and Q: "stdout (fst (run e ds st)) = stdout ?h @ Q"
    and ph: "map phase_of T = concat (replicate (length ds) training_cycle)"
    and len: "length (backprop_values T) = length ds"
    and lenQ: "length Q = length ds div 500"
    and rep: "loss_reports Q =
         map (\<lambda>k. (500 * (k + 1), sum_list (take 500 (drop (500 * k) (backprop_values T))) / 500))
           [0..<length ds div 500]"
    and acc: "snd (run e ds st) = sum_list (drop (500 * (length ds div 500)) (backprop_values T))"
    unfolding run_def by blast
  have T': "drop (length (trace st)) (trace (fst (run e ds st))) = T"
    by (simp add: T print_def)
  have Q': "drop (length (stdout st)) (stdout (fst (run e ds st))) =
      Printf ''Starting epoch {}'' [Int_arg e] # Q"
    by (simp add: Q print_def)
  show "phases_since st (fst (run e ds st)) = concat (replicate (length ds) training_cycle)"
    unfolding phases_since_def T' by (rule ph)
  show "length (losses_since st (fst (run e ds st))) = length ds"
    unfolding losses_since_def T' by (rule len)
  show "reports_since st (fst (run e ds st)) =
         map (\<lambda>k. (500 * (k + 1),
                    sum_list (take 500 (drop (500 * k) (losses_since st (fst (run e ds st))))) / 500))
           [0..<length ds div 500]"
    unfolding reports_since_def losses_since_def T' Q' loss_report_header by (rule rep)
  show "length (stdout (fst (run e ds st))) = length (stdout st) + 1 + length ds div 500"
    by (simp add: Q print_def lenQ)
  show "snd (run e ds st) =
         sum_list (drop (500 * (length ds div 500)) (losses_since st (fst (run e ds st))))"
    unfolding losses_since_def T' by (rule acc)
qed

lemma l2_step: "\<exists>v f r.
      trace (l2_iteration fw i d st) = trace st @ [Zero_grad, Forward, Loss_function, Backward v, Optimizer_step]
    \<and> stdout (l2_iteration fw i d st) = stdout st @
          (if i mod 500 = 499 then [Printf f (Int_arg (i + 1) # Float_arg v # r)] else [])"
proof (cases d)
  case (Pair inputs targets)
  show ?thesis unfolding Pair l2_iteration_trace l2_iteration_stdout by blast
qed

lemma elastic_step: "\<exists>v f r.
      trace (elastic_iteration fw i d st) = trace st @ [Zero_grad, Forward, Loss_function, Backward v, Optimizer_step]
    \<and> stdout (elastic_iteration fw i d st) = stdout st @
          (if i mod 500 = 499 then [Printf f (Int_arg (i + 1) # Float_arg v # r)] else [])"
proof (cases d)
  case (Pair inputs targets)
  show ?thesis unfolding Pair elastic_iteration_trace elastic_iteration_stdout by blast
qed

lemma dropout_step: "\<exists>v f.
      trace (fst (dropout_iteration fw i d (st, c))) =
        trace st @ [Zero_grad, Forward, Loss_function, Backward v, Optimizer_step]
    \<and> stdout (fst (dropout_iteration fw i d (st, c))) = stdout st @
          (if i mod 500 = 499 then [Printf f [Int_arg (i + 1), Float_arg ((c + v) / 500)]] else [])
    \<and> snd (dropout_iteration fw i d (st, c)) = (if i mod 500 = 499 then 0 else c + v)"
proof (cases d)
  case (Pair inputs targets)
  show ?thesis
    unfolding Pair dropout_iteration_trace dropout_iteration_stdout dropout_iteration_current_loss
    by blast
qed

lemma convnet_step: "\<exists>v f.
      trace (fst (convnet_iteration fw i d (st, c))) =
        trace st @ [Zero_grad, Forward, Loss_function, Backward v, Optimizer_step]
    \<and> stdout (fst (convnet_iteration fw i d (st, c))) = stdout st @
          (if i mod 500 = 499 then [Printf f [Int_arg (i + 1), Float_arg ((c + v) / 500)]] else [])
    \<and> snd (convnet_iteration fw i d (st, c)) = (if i mod 500 = 499 then 0 else c + v)"
proof (cases d)
  case (Pair inputs targets)
  show ?thesis
    unfolding Pair convnet_iteration_trace convnet_iteration_stdout convnet_iteration_current_loss
    by blast
qed

subsection \<open>The epochs of the five notebooks\<close>

lemmas l1_epoch_facts = plain_epoch [of "l1_iteration fw", OF l1_step] for fw
lemmas l2_epoch_facts = plain_epoch [of "l2_iteration fw", OF l2_step] for fw
lemmas elastic_epoch_facts = plain_epoch [of "elastic_iteration fw", OF elastic_step] for fw
lemmas dropout_epoch_facts = accum_epoch [of "dropout_iteration fw", OF dropout_step] for fw
lemmas convnet_epoch_facts = accum_epoch [of "convnet_iteration fw", OF convnet_step] for fw

lemma l1_epoch_reports_eq:
  "reports_since st (l1_epoch fw e ds st) = minibatch_reports (losses_since st (l1_epoch fw e ds st))"
  unfolding minibatch_reports_def l1_epoch_def l1_epoch_facts(2) by (rule l1_epoch_facts(3))

lemma l2_epoch_reports_eq:
  "reports_since st (l2_epoch fw e ds st) = minibatch_reports (losses_since st (l2_epoch fw e ds st))"
  unfolding minibatch_reports_def l2_epoch_def l2_epoch_facts(2) by (rule l2_epoch_facts(3))

lemma elastic_epoch_reports_eq:
  "reports_since st (elastic_epoch fw e ds st) =
     minibatch_reports (losses_since st (elastic_epoch fw e ds st))"
  unfolding minibatch_reports_def elastic_epoch_def elastic_epoch_facts(2)
  by (rule elastic_epoch_facts(3))

lemma dropout_epoch_reports_eq:
  "reports_since st (dropout_epoch fw e ds st) =
     running_reports (losses_since st (dropout_epoch fw e ds st))"
  unfolding running_reports_def dropout_epoch_def dropout_batches_def dropout_epoch_facts(2)
  by (rule dropout_epoch_facts(3))

lemma convnet_epoch_reports_eq:
  "reports_since st (convnet_epoch fw e ds st) =
     running_reports (losses_since st (convnet_epoch fw e ds st))"
  unfolding running_reports_def convnet_epoch_def convnet_batches_def convnet_epoch_facts(2)
  by (rule convnet_epoch_facts(3))

lemma l1_epoch_phases_eq:
  "phases_since st (l1_epoch fw e ds st) = concat (replicate (length ds) training_cycle)"
  unfolding l1_epoch_def by (rule l1_epoch_facts(1))

lemma l2_epoch_phases_eq:
  "phases_since st (l2_epoch fw e ds st) = concat (replicate (length ds) training_cycle)"
  unfolding l2_epoch_def by (rule l2_epoch_facts(1))

lemma elastic_epoch_phases_eq:
  "phases_since st (elastic_epoch fw e ds st) = concat (replicate (length ds) training_cycle)"
  unfolding elastic_epoch_def by (rule elastic_epoch_facts(1))

lemma dropout_epoch_phases_eq:
  "phases_since st (dropout_epoch fw e ds st) = concat (replicate (length ds) training_cycle)"
  unfolding dropout_epoch_def dropout_batches_def by (rule dropout_epoch_facts(1))

lemma convnet_epoch_phases_eq:
  "phases_since st (convnet_epoch fw e ds st) = concat (replicate (length ds) training_cycle)"
  unfolding convnet_epoch_def convnet_batches_def by (rule convnet_epoch_facts(1))

lemma l1_epoch_lines:
  "length (stdout (l1_epoch fw e ds st)) = length (stdout st) + 1 + length ds div 500"
  unfolding l1_epoch_def by (rule l1_epoch_facts(4))

lemma l2_epoch_lines:
  "length (stdout (l2_epoch fw e ds st)) = length (stdout st) + 1 + length ds div 500"
  unfolding l2_epoch_def by (rule l2_epoch_facts(4))

lemma elastic_epoch_lines:
  "length (stdout (elastic_epoch fw e ds st)) = length (stdout st) + 1 + length ds div 500"
  unfolding elastic_epoch_def by (rule elastic_epoch_facts(4))

lemma dropout_epoch_lines:
  "length (stdout (dropout_epoch fw e ds st)) = length (stdout st) + 1 + length ds div 500"
  unfolding dropout_epoch_def dropout_batches_def by (rule dropout_epoch_facts(4))

lemma convnet_epoch_lines:
  "length (stdout (convnet_epoch fw e ds st)) = length (stdout st) + 1 + length ds div 500"
  unfolding convnet_epoch_def convnet_batches_def by (rule convnet_epoch_facts(4))

lemma dropout_accumulator:
  "snd (dropout_batches fw e ds st) =
     sum_list (drop (500 * (length ds div 500)) (losses_since st (dropout_epoch fw e ds st)))"
  unfolding dropout_epoch_def dropout_batches_def by (rule dropout_epoch_facts(5))

lemma convnet_accumulator:
  "snd (convnet_batches fw e ds st) =
     sum_list (drop (500 * (length ds div 500)) (losses_since st (convnet_epoch fw e ds st)))"
  unfolding convnet_epoch_def convnet_batches_def by (rule convnet_epoch_facts(5))

subsection \<open>The loops on the small framework\<close>

lemma demo_penalties:
  "compute_l1_loss (cat (flattened (parameters demo_state))) = 0"
  "compute_l2_loss (cat (flattened (parameters demo_state))) = 0"
  by (simp_all add: compute_l1_loss_sum compute_l2_loss_sum elems_cat_flattened demo_state_def)

lemma demo_l1_iteration:
  assumes "parameters st = parameters demo_state"
  shows "parameters (l1_iteration demo_fw i d st) = parameters demo_state"
    and "trace (l1_iteration demo_fw i d st) =
           trace st @ [Zero_grad, Forward, Loss_function, Backward (fst d), Optimizer_step]"
proof -
  obtain x y where d: "d = (x, y)" by (cases d)
  show "parameters (l1_iteration demo_fw i d st) = parameters demo_state"
    unfolding d using assms
    by (simp add: l1_iteration_def iteration_defs demo_fw_def split: prod.splits)
  show "trace (l1_iteration demo_fw i d st) =
           trace st @ [Zero_grad, Forward, Loss_function, Backward (fst d), Optimizer_step]"
    unfolding d l1_iteration_trace assms demo_penalties by (simp add: demo_fw_def)
qed

lemma demo_l1_loop:
  "parameters st = parameters demo_state \<Longrightarrow>
   backprop_values (trace (enumerate_loop (l1_iteration demo_fw) i ds st)) =
     backprop_values (trace st) @ map fst ds"
proof (induction ds arbitrary: i st)
  case Nil
  show ?case by simp
next
  case (Cons d ds)
  have "backprop_values (trace (enumerate_loop (l1_iteration demo_fw) (Suc i) ds
            (l1_iteration demo_fw i d st))) =
        backprop_values (trace (l1_iteration demo_fw i d st)) @ map fst ds"
    by (rule Cons.IH) (rule demo_l1_iteration(1) [OF Cons.prems])
  then show ?case
    by (simp add: demo_l1_iteration(2) [OF Cons.prems] backprop_values_append)
qed

lemma demo_dropout_iteration:
  assumes "parameters st = parameters demo_state"
  shows "parameters (fst (dropout_iteration demo_fw i d (st, c))) = parameters demo_state"
    and "trace (fst (dropout_iteration demo_fw i d (st, c))) =
           trace st @ [Zero_grad, Forward, Loss_function, Backward (fst d), Optimizer_step]"
proof -
  obtain x y where d: "d = (x, y)" by (cases d)
  show "parameters (fst (dropout_iteration demo_fw i d (st, c))) = parameters demo_state"
    unfolding d using assms
    by (simp add: dropout_iteration_def iteration_defs demo_fw_def split: prod.splits)
  show "trace (fst (dropout_iteration demo_fw i d (st, c))) =
           trace st @ [Zero_grad, Forward, Loss_function, Backward (fst d), Optimizer_step]"
    unfolding d dropout_iteration_trace by (simp add: demo_fw_def)
qed

lemma demo_dropout_loop:
  "parameters (fst sc) = parameters demo_state \<Longrightarrow>
   backprop_values (trace (fst (enumerate_loop (dropout_iteration demo_fw) i ds sc))) =
     backprop_values (trace (fst sc)) @ map fst ds"
proof (induction ds arbitrary: i sc)
  case Nil
  show ?case by simp
next
  case (Cons d ds)
  obtain st c where sc: "sc = (st, c)" by (cases sc)
  from Cons.prems have p: "parameters st = parameters demo_state" by (simp add: sc)
  have "backprop_values (trace (fst (enumerate_loop (dropout_iteration demo_fw) (Suc i) ds
            (dropout_iteration demo_fw i d (st, c))))) =
        backprop_values (trace (fst (dropout_iteration demo_fw i d (st, c)))) @ map fst ds"
    by (rule Cons.IH) (rule demo_dropout_iteration(1) [OF p])
  then show ?case
    by (simp add: sc demo_dropout_iteration(2) [OF p] backprop_values_append)
qed

lemma demo_l1_losses:
  "losses_since demo_state (l1_epoch demo_fw e ds demo_state) = map fst ds"
proof -
  have "backprop_values (trace (l1_epoch demo_fw e ds demo_state)) = map fst ds"
    unfolding l1_epoch_def
    by (subst demo_l1_loop) (simp_all add: print_def demo_state_def)
  moreover have "trace demo_state = []" by (simp add: demo_state_def)
  ultimately show ?thesis by (simp add: losses_since_def)
qed

lemma demo_dropout_losses:
  "losses_since demo_state (dropout_epoch demo_fw e ds demo_state) = map fst ds"
proof -
  have "backprop_values (trace (dropout_epoch demo_fw e ds demo_state)) = map fst ds"
    unfolding dropout_epoch_def dropout_batches_def
    by (subst demo_dropout_loop) (simp_all add: print_def demo_state_def)
  moreover have "trace demo_state = []" by (simp add: demo_state_def)
  ultimately show ?thesis by (simp add: losses_since_def)
qed

lemma demo_losses: "map fst demo_batches = replicate 499 1 @ [2]"
  by (simp add: demo_batches_def)

lemma demo_minibatch_reports: "minibatch_reports (replicate 499 1 @ [2]) = [(500, 2)]"
  by (simp add: minibatch_reports_def nth_append)

lemma demo_running_reports: "running_reports (replicate 499 1 @ [2]) = [(500, 501 / 500)]"
  by (simp add: running_reports_def sum_list_replicate)

subsection \<open>Shapes\<close>

text \<open>
  The shape rules reproduce the summary table that the ConvNet notebook records for
  \<open>ConvNet2\<close> on a \<open>(1, 28, 28)\<close> input, and they refuse inputs that do not fit.
\<close>

lemma convnet2_summary_shapes:
  "sequential_shapes (ConvNet2 1 10 (2 / 10)) [n, 1, 28, 28] =
     Some [[n, 32, 26, 26], [n, 32, 26, 26], [n, 32, 13, 13],
           [n, 64, 11, 11], [n, 64, 11, 11], [n, 64, 5, 5],
           [n, 128, 5, 5], [n, 128, 5, 5], [n, 128, 2, 2],
           [n, 64, 2, 2], [n, 64, 2, 2], [n, 64, 1, 1],
           [n, 64], [n, 128], [n, 128], [n, 128], [n, 10]]"
  by (simp add: ConvNet2_def)

lemma convnet_refuses_three_channels: "forward_shape ConvNet [n, 3, 28, 28] = None"
  by (simp add: ConvNet_def forward_shape_def)

lemma convnet_refuses_small_images: "forward_shape ConvNet [n, 1, 26, 26] = None"
  by (simp add: ConvNet_def forward_shape_def)

subsection \<open>Where the reports fall\<close>

lemma report_points:
  "map fst (minibatch_reports ls) = map (\<lambda>k. 500 * (k + 1)) [0..<length ls div 500]"
  "map fst (running_reports ls) = map (\<lambda>k. 500 * (k + 1)) [0..<length ls div 500]"
  by (simp_all add: minibatch_reports_def running_reports_def comp_def)

lemma l1_epoch_losses_length: "length (losses_since st (l1_epoch fw e ds st)) = length ds"
  unfolding l1_epoch_def by (rule l1_epoch_facts(2))

lemma l2_epoch_losses_length: "length (losses_since st (l2_epoch fw e ds st)) = length ds"
  unfolding l2_epoch_def by (rule l2_epoch_facts(2))

lemma elastic_epoch_losses_length:
  "length (losses_since st (elastic_epoch fw e ds st)) = length ds"
  unfolding elastic_epoch_def by (rule elastic_epoch_facts(2))

lemma dropout_epoch_losses_length:
  "length (losses_since st (dropout_epoch fw e ds st)) = length ds"
  unfolding dropout_epoch_def dropout_batches_def by (rule dropout_epoch_facts(2))

subsection \<open>The whole run: all epochs\<close>

lemma concat_replicate_add:
  "concat (replicate (m + n) c) = concat (replicate m c) @ concat (replicate n c)"
  by (induction m) simp_all

lemma plain_epoch_trace:
  fixes body :: "nat \<Rightarrow> 'd \<Rightarrow> 's train_state \<Rightarrow> 's train_state"
  assumes step: "\<And>i d st. \<exists>v f r.
      trace (body i d st) = trace st @ [Zero_grad, Forward, Loss_function, Backward v, Optimizer_step]
    \<and> stdout (body i d st) = stdout st @
          (if i mod 500 = 499 then [Printf f (Int_arg (i + 1) # Float_arg v # r)] else [])"
  shows "\<exists>T. trace (enumerate_loop body 0 ds (print l st)) = trace st @ T
           \<and> map phase_of T = concat (replicate (length ds) training_cycle)"
  using plain_loop [of body ds "print l st", OF step] by (auto simp: print_def)

lemma accum_epoch_trace:
  fixes body :: "nat \<Rightarrow> 'd \<Rightarrow> 's train_state \<times> real \<Rightarrow> 's train_state \<times> real"
  assumes step: "\<And>i d st c. \<exists>v f.
      trace (fst (body i d (st, c))) =
        trace st @ [Zero_grad, Forward, Loss_function, Backward v, Optimizer_step]
    \<and> stdout (fst (body i d (st, c))) = stdout st @
          (if i mod 500 = 499 then [Printf f [Int_arg (i + 1), Float_arg ((c + v) / 500)]] else [])
    \<and> snd (body i d (st, c)) = (if i mod 500 = 499 then 0 else c + v)"
  shows "\<exists>T. trace (fst (enumerate_loop body 0 ds (print l st, 0))) = trace st @ T
           \<and> map phase_of T = concat (replicate (length ds) training_cycle)"
  using accum_loop [of body ds "print l st", OF step] by (auto simp: print_def)

lemma epochs_phases:
  fixes epoch :: "nat \<Rightarrow> 'd list \<Rightarrow> 's train_state \<Rightarrow> 's train_state"
  assumes ep: "\<And>e ds st. \<exists>T. trace (epoch e ds st) = trace st @ T
           \<and> map phase_of T = concat (replicate (length ds) training_cycle)"
  shows "phases_since st
           (print l (foldl (\<lambda>st e. epoch e (trainloader e) st) st es)) =
         concat (replicate (\<Sum>e\<leftarrow>es. length (trainloader e)) training_cycle)"
proof -
  have "\<exists>T. trace (foldl (\<lambda>st e. epoch e (trainloader e) st) st es) = trace st @ T
           \<and> map phase_of T =
               concat (replicate (\<Sum>e\<leftarrow>es. length (trainloader e)) training_cycle)"
  proof (induction es rule: rev_induct)
    case Nil
    show ?case by simp
  next
    case (snoc e es)
    let ?st = "foldl (\<lambda>st e. epoch e (trainloader e) st) st es"
    from snoc obtain T where T: "trace ?st = trace st @ T"
      and ph: "map phase_of T =
               concat (replicate (\<Sum>e\<leftarrow>es. length (trainloader e)) training_cycle)"
      by blast
    from ep [of e "trainloader e" ?st] obtain U where
      U: "trace (epoch e (trainloader e) ?st) = trace ?st @ U"
      and phU: "map phase_of U = concat (replicate (length (trainloader e)) training_cycle)"
      by blast
    have "trace (foldl (\<lambda>st e. epoch e (trainloader e) st) st (es @ [e])) = trace st @ (T @ U)"
      by (simp add: U T)
    moreover have "map phase_of (T @ U) =
        concat (replicate (\<Sum>e\<leftarrow>es @ [e]. length (trainloader e)) training_cycle)"
      by (simp add: ph phU concat_replicate_add)
    ultimately show ?case by blast
  qed
  then show ?thesis by (auto simp: phases_since_def print_def)
qed

lemma l1_main_phases:
  "phases_since st (l1_main fw trainloader st) =
     concat (replicate (\<Sum>epoch\<leftarrow>[0..<5]. length (trainloader epoch)) training_cycle)"
  unfolding l1_main_def
  by (rule epochs_phases) (unfold l1_epoch_def, rule plain_epoch_trace [OF l1_step])

lemma l2_main_phases:
  "phases_since st (l2_main fw trainloader st) =
     concat (replicate (\<Sum>epoch\<leftarrow>[0..<5]. length (trainloader epoch)) training_cycle)"
  unfolding l2_main_def
  by (rule epochs_phases) (unfold l2_epoch_def, rule plain_epoch_trace [OF l2_step])

lemma elastic_main_phases:
  "phases_since st (elastic_main fw trainloader st) =
     concat (replicate (\<Sum>epoch\<leftarrow>[0..<5]. length (trainloader epoch)) training_cycle)"
  unfolding elastic_main_def
  by (rule epochs_phases) (unfold elastic_epoch_def, rule plain_epoch_trace [OF elastic_step])

lemma dropout_main_phases:
  "phases_since st (dropout_main fw trainloader st) =
     concat (replicate (\<Sum>epoch\<leftarrow>[0..<5]. length (trainloader epoch)) training_cycle)"
  unfolding dropout_main_def
  by (rule epochs_phases)
    (unfold dropout_epoch_def dropout_batches_def, rule accum_epoch_trace [OF dropout_step])

lemma convnet_main_phases:
  "phases_since st (convnet_main fw trainloader st) =
     concat (replicate (\<Sum>epoch\<leftarrow>[0..<3]. length (trainloader epoch)) training_cycle)"
  unfolding convnet_main_def
  by (rule epochs_phases)
    (unfold convnet_epoch_def convnet_batches_def, rule accum_epoch_trace [OF convnet_step])

subsection \<open>Rounding at the values of the example\<close>

lemma bit_length_0: "bit_length 0 = 0"
  by (simp add: bit_length.simps)

lemma bit_length_1: "bit_length (Suc 0) = Suc 0"
  by (subst bit_length.simps) (simp add: bit_length_0)

lemma bit_length_values:
  "bit_length 2 = 2"
  "bit_length 16777216 = 25" "bit_length 16777217 = 25" "bit_length 16777218 = 25"
  by (simp_all add: bit_length.simps bit_length_1)

lemma f32_exponent_values:
  "f32_exponent 1 = 0" "f32_exponent 2 = 1"
  "f32_exponent 16777216 = 24" "f32_exponent 16777217 = 24" "f32_exponent 16777218 = 24"
  by (simp_all add: f32_exponent_def bit_length_values bit_length_1)

lemma ulp_values:
  "(2::real) powi (- 23) = 1 / 8388608" "(2::real) powi (- 22) = 1 / 4194304"
  "(2::real) powi 1 = 2"
  by (simp_all add: power_int_def power_divide)

lemma f32_round_values:
  "f32_round 1 = 1" "f32_round 2 = 2"
  "f32_round 16777216 = 16777216" "f32_round 16777217 = 16777216"
  "f32_round 16777218 = 16777218"
  by (simp_all add: f32_round_def f32_exponent_values ulp_values Let_def)

lemma torch_cat_nonempty: "ps \<noteq> [] \<Longrightarrow> torch_cat (flattened ps) = Inr (cat (flattened ps))"
  by (simp add: torch_cat_def flattened_map)

section \<open>The claims\<close>

text \<open>
  C1. \<^verbatim>\<open>compute_l1_loss\<close> returns the sum of the absolute values of the elements
  of its argument, and in every mini-batch iteration of the L1 notebook the loss on
  which \<^verbatim>\<open>backward()\<close> is called is the loss of the forward pass plus
  \<open>l1_weight = 1\<close> times \<^verbatim>\<open>compute_l1_loss\<close> of the concatenation of all flattened
  parameters: as a value, and as the function of the parameters whose gradient the
  optimizer then uses.
\<close>

theorem l1_backpropagated_loss:
  "compute_l1_loss w = (\<Sum>e\<leftarrow>elems w. \<bar>e\<bar>)
   \<and> elems (cat (flattened ps)) = concat (map elems ps)
   \<and> losses_since st (l1_iteration fw i (inputs, targets) st) =
       [loss_function fw (fst (net fw (fw_state st) inputs) (parameters st)) targets
          + 1 * compute_l1_loss (cat (flattened (parameters st)))]
   \<and> grad (l1_iteration fw i (inputs, targets) st) =
       Some (autograd fw
         (\<lambda>w. loss_function fw (fst (net fw (fw_state st) inputs) w) targets
                + 1 * compute_l1_loss (cat (flattened w)))
         (parameters st))"
proof -
  have "losses_since st (l1_iteration fw i (inputs, targets) st) =
       [loss_function fw (fst (net fw (fw_state st) inputs) (parameters st)) targets
          + 1 * compute_l1_loss (cat (flattened (parameters st)))]"
    by (rule losses_since_iteration) (rule l1_iteration_trace)
  then show ?thesis
    using compute_l1_loss_sum [of w] elems_cat_flattened [of ps] l1_iteration_grad [of fw i inputs targets st]
    by blast
qed

text \<open>
  C2. In every mini-batch iteration of the Elastic Net notebook the penalty added to
  the loss of the forward pass before \<^verbatim>\<open>backward()\<close> is \<open>0.3\<close> times the sum of the
  absolute values of all flattened parameters plus \<open>0.7\<close> times the sum of their
  squares: as a value, and as the function of the parameters that is differentiated.
\<close>

theorem elastic_net_penalty:
  "losses_since st (elastic_iteration fw i (inputs, targets) st) =
       [loss_function fw (fst (net fw (fw_state st) inputs) (parameters st)) targets
          + (3 / 10 * (\<Sum>e\<leftarrow>concat (map elems (parameters st)). \<bar>e\<bar>)
           + 7 / 10 * (\<Sum>e\<leftarrow>concat (map elems (parameters st)). e\<^sup>2))]
   \<and> grad (elastic_iteration fw i (inputs, targets) st) =
       Some (autograd fw
         (\<lambda>w. loss_function fw (fst (net fw (fw_state st) inputs) w) targets
                + (3 / 10 * compute_l1_loss (cat (flattened w))
                 + 7 / 10 * compute_l2_loss (cat (flattened w))))
         (parameters st))
   \<and> compute_l1_loss (cat (flattened ps)) = (\<Sum>e\<leftarrow>concat (map elems ps). \<bar>e\<bar>)
   \<and> compute_l2_loss (cat (flattened ps)) = (\<Sum>e\<leftarrow>concat (map elems ps). e\<^sup>2)"
proof -
  have l1: "compute_l1_loss (cat (flattened qs)) = (\<Sum>e\<leftarrow>concat (map elems qs). \<bar>e\<bar>)" for qs
    unfolding compute_l1_loss_sum elems_cat_flattened ..
  have l2: "compute_l2_loss (cat (flattened qs)) = (\<Sum>e\<leftarrow>concat (map elems qs). e\<^sup>2)" for qs
    unfolding compute_l2_loss_sum elems_cat_flattened ..
  have "losses_since st (elastic_iteration fw i (inputs, targets) st) =
       [loss_function fw (fst (net fw (fw_state st) inputs) (parameters st)) targets
          + 3 / 10 * compute_l1_loss (cat (flattened (parameters st)))
          + 7 / 10 * compute_l2_loss (cat (flattened (parameters st)))]"
    by (rule losses_since_iteration) (rule elastic_iteration_trace)
  then have a: "losses_since st (elastic_iteration fw i (inputs, targets) st) =
       [loss_function fw (fst (net fw (fw_state st) inputs) (parameters st)) targets
          + (3 / 10 * (\<Sum>e\<leftarrow>concat (map elems (parameters st)). \<bar>e\<bar>)
           + 7 / 10 * (\<Sum>e\<leftarrow>concat (map elems (parameters st)). e\<^sup>2))]"
    unfolding l1 l2 by (simp only: add.assoc)
  have b: "grad (elastic_iteration fw i (inputs, targets) st) =
       Some (autograd fw
         (\<lambda>w. loss_function fw (fst (net fw (fw_state st) inputs) w) targets
                + (3 / 10 * compute_l1_loss (cat (flattened w))
                 + 7 / 10 * compute_l2_loss (cat (flattened w))))
         (parameters st))"
    unfolding elastic_iteration_grad by (simp only: add.assoc)
  from a b l1 [of ps] l2 [of ps] show ?thesis by blast
qed

text \<open>
  C6. \<^verbatim>\<open>compute_l2_loss\<close> returns the sum of the squares of the elements of its
  argument, and in every mini-batch iteration of the L2 notebook the loss on which
  \<^verbatim>\<open>backward()\<close> is called is the loss of the forward pass plus \<open>l2_weight = 1\<close>
  times \<^verbatim>\<open>compute_l2_loss\<close> of the concatenation of all flattened parameters.
\<close>

theorem l2_backpropagated_loss:
  "compute_l2_loss w = (\<Sum>e\<leftarrow>elems w. e\<^sup>2)
   \<and> elems (cat (flattened ps)) = concat (map elems ps)
   \<and> losses_since st (l2_iteration fw i (inputs, targets) st) =
       [loss_function fw (fst (net fw (fw_state st) inputs) (parameters st)) targets
          + 1 * compute_l2_loss (cat (flattened (parameters st)))]
   \<and> grad (l2_iteration fw i (inputs, targets) st) =
       Some (autograd fw
         (\<lambda>w. loss_function fw (fst (net fw (fw_state st) inputs) w) targets
                + 1 * compute_l2_loss (cat (flattened w)))
         (parameters st))"
proof -
  have "losses_since st (l2_iteration fw i (inputs, targets) st) =
       [loss_function fw (fst (net fw (fw_state st) inputs) (parameters st)) targets
          + 1 * compute_l2_loss (cat (flattened (parameters st)))]"
    by (rule losses_since_iteration) (rule l2_iteration_trace)
  then show ?thesis
    using compute_l2_loss_sum [of w] elems_cat_flattened [of ps]
      l2_iteration_grad [of fw i inputs targets st]
    by blast
qed

text \<open>
  C3. In the training loop of every notebook, the calls made during an epoch over
  \<open>ds\<close> mini-batches are \<open>length ds\<close> repetitions of: zero the gradients, forward
  pass, compute the loss, backward pass, optimizer step; nothing is skipped,
  repeated or reordered. The same holds for the whole run over all epochs.
\<close>

theorem every_iteration_runs_the_training_cycle:
  "training_cycle = [ZeroGrad, ForwardPass, ComputeLoss, BackwardPass, OptimizerStep]
   \<and> phases_since st (l1_epoch fw e ds st) = concat (replicate (length ds) training_cycle)
   \<and> phases_since st (l2_epoch fw e ds st) = concat (replicate (length ds) training_cycle)
   \<and> phases_since st (elastic_epoch fw e ds st) = concat (replicate (length ds) training_cycle)
   \<and> phases_since st (dropout_epoch fw e ds st) = concat (replicate (length ds) training_cycle)
   \<and> phases_since st (convnet_epoch fw e ds st) = concat (replicate (length ds) training_cycle)
   \<and> phases_since st (l1_main fw trainloader st) =
       concat (replicate (\<Sum>epoch\<leftarrow>[0..<5]. length (trainloader epoch)) training_cycle)
   \<and> phases_since st (l2_main fw trainloader st) =
       concat (replicate (\<Sum>epoch\<leftarrow>[0..<5]. length (trainloader epoch)) training_cycle)
   \<and> phases_since st (elastic_main fw trainloader st) =
       concat (replicate (\<Sum>epoch\<leftarrow>[0..<5]. length (trainloader epoch)) training_cycle)
   \<and> phases_since st (dropout_main fw trainloader st) =
       concat (replicate (\<Sum>epoch\<leftarrow>[0..<5]. length (trainloader epoch)) training_cycle)
   \<and> phases_since st (convnet_main fw trainloader st) =
       concat (replicate (\<Sum>epoch\<leftarrow>[0..<3]. length (trainloader epoch)) training_cycle)"
  using training_cycle_def l1_epoch_phases_eq [of st fw e ds] l2_epoch_phases_eq [of st fw e ds]
    elastic_epoch_phases_eq [of st fw e ds] dropout_epoch_phases_eq [of st fw e ds]
    convnet_epoch_phases_eq [of st fw e ds]
    l1_main_phases [of st fw trainloader] l2_main_phases [of st fw trainloader]
    elastic_main_phases [of st fw trainloader] dropout_main_phases [of st fw trainloader]
    convnet_main_phases [of st fw trainloader]
  by blast

text \<open>
  C5, as the code has it. In every notebook an epoch over \<open>ds\<close> mini-batches prints
  the epoch header and one loss report after each 500th mini-batch (batch index
  \<open>i\<close> with \<open>i mod 500 = 499\<close>), and nothing else. In the Dropout and ConvNet
  notebooks the figure is the mean of the losses accumulated since the previous
  report or the start of the epoch; in the L1, L2 and Elastic Net notebooks it is
  the loss of that mini-batch alone.
\<close>

theorem loss_reports_every_500th_minibatch:
  "reports_since st (l1_epoch fw e ds st) =
     minibatch_reports (losses_since st (l1_epoch fw e ds st))
   \<and> reports_since st (l2_epoch fw e ds st) =
     minibatch_reports (losses_since st (l2_epoch fw e ds st))
   \<and> reports_since st (elastic_epoch fw e ds st) =
     minibatch_reports (losses_since st (elastic_epoch fw e ds st))
   \<and> reports_since st (dropout_epoch fw e ds st) =
     running_reports (losses_since st (dropout_epoch fw e ds st))
   \<and> reports_since st (convnet_epoch fw e ds st) =
     running_reports (losses_since st (convnet_epoch fw e ds st))
   \<and> length (stdout (l1_epoch fw e ds st)) = length (stdout st) + 1 + length ds div 500
   \<and> length (stdout (l2_epoch fw e ds st)) = length (stdout st) + 1 + length ds div 500
   \<and> length (stdout (elastic_epoch fw e ds st)) = length (stdout st) + 1 + length ds div 500
   \<and> length (stdout (dropout_epoch fw e ds st)) = length (stdout st) + 1 + length ds div 500
   \<and> length (stdout (convnet_epoch fw e ds st)) = length (stdout st) + 1 + length ds div 500
   \<and> map fst (minibatch_reports ls) = map (\<lambda>k. 500 * (k + 1)) [0..<length ls div 500]
   \<and> map fst (running_reports ls) = map (\<lambda>k. 500 * (k + 1)) [0..<length ls div 500]"
proof -
  have "map fst (minibatch_reports ls) = map (\<lambda>k. 500 * (k + 1)) [0..<length ls div 500]"
    by (simp add: minibatch_reports_def comp_def)
  moreover have "map fst (running_reports ls) = map (\<lambda>k. 500 * (k + 1)) [0..<length ls div 500]"
    by (simp add: running_reports_def comp_def)
  ultimately show ?thesis
    using l1_epoch_reports_eq [of st fw e ds] l2_epoch_reports_eq [of st fw e ds]
      elastic_epoch_reports_eq [of st fw e ds] dropout_epoch_reports_eq [of st fw e ds]
      convnet_epoch_reports_eq [of st fw e ds]
      l1_epoch_lines [of fw e ds st] l2_epoch_lines [of fw e ds st]
      elastic_epoch_lines [of fw e ds st] dropout_epoch_lines [of fw e ds st]
      convnet_epoch_lines [of fw e ds st]
    by blast
qed

text \<open>
  C5, as stated, fails on the L1 notebook: on 500 mini-batches with losses
  \<open>1, \<dots>, 1, 2\<close> and parameters whose penalty is zero, the figure printed after
  mini-batch 500 is \<open>2\<close>, the loss of the last mini-batch, while the losses since
  the start of the epoch add up to \<open>501\<close> (mean \<open>501 / 500\<close>).
\<close>

theorem l1_report_is_not_accumulated:
  "reports_since demo_state (l1_epoch demo_fw 0 demo_batches demo_state) = [(500, 2)]
   \<and> losses_since demo_state (l1_epoch demo_fw 0 demo_batches demo_state) = replicate 499 1 @ [2]
   \<and> sum_list (losses_since demo_state (l1_epoch demo_fw 0 demo_batches demo_state)) = 501
   \<and> running_reports (losses_since demo_state (l1_epoch demo_fw 0 demo_batches demo_state))
       = [(500, 501 / 500)]
   \<and> reports_since demo_state (l1_epoch demo_fw 0 demo_batches demo_state)
       \<noteq> running_reports (losses_since demo_state (l1_epoch demo_fw 0 demo_batches demo_state))"
  unfolding l1_epoch_reports_eq demo_l1_losses demo_losses demo_minibatch_reports
    demo_running_reports
  by (simp add: sum_list_replicate)

text \<open>
  C10. In the Dropout and ConvNet notebooks the accumulator \<^verbatim>\<open>current_loss\<close> is
  \<open>0\<close> when the loop over the mini-batches of an epoch starts, whatever state the
  previous epoch left; every printed figure is the sum of the losses of the 500
  mini-batches since the previous reset, divided by 500; and after any number of
  mini-batches the accumulator holds the losses of the mini-batches since the last
  report only.
\<close>

theorem current_loss_accumulates_between_reports:
  "snd (dropout_batches fw e [] st) = 0
   \<and> snd (convnet_batches fw e [] st) = 0
   \<and> reports_since st (dropout_epoch fw e ds st) =
       map (\<lambda>k. (500 * (k + 1),
                  sum_list (take 500 (drop (500 * k) (losses_since st (dropout_epoch fw e ds st))))
                    / 500))
         [0..<length ds div 500]
   \<and> reports_since st (convnet_epoch fw e ds st) =
       map (\<lambda>k. (500 * (k + 1),
                  sum_list (take 500 (drop (500 * k) (losses_since st (convnet_epoch fw e ds st))))
                    / 500))
         [0..<length ds div 500]
   \<and> length (losses_since st (dropout_epoch fw e ds st)) = length ds
   \<and> length (losses_since st (convnet_epoch fw e ds st)) = length ds
   \<and> snd (dropout_batches fw e ds st) =
       sum_list (drop (500 * (length ds div 500)) (losses_since st (dropout_epoch fw e ds st)))
   \<and> snd (convnet_batches fw e ds st) =
       sum_list (drop (500 * (length ds div 500)) (losses_since st (convnet_epoch fw e ds st)))"
proof -
  have "snd (dropout_batches fw e [] st) = 0" "snd (convnet_batches fw e [] st) = 0"
    by (simp_all add: dropout_batches_def convnet_batches_def)
  moreover have "length (losses_since st (dropout_epoch fw e ds st)) = length ds"
    unfolding dropout_epoch_def dropout_batches_def by (rule dropout_epoch_facts(2))
  moreover have "length (losses_since st (convnet_epoch fw e ds st)) = length ds"
    unfolding convnet_epoch_def convnet_batches_def by (rule convnet_epoch_facts(2))
  moreover have "reports_since st (dropout_epoch fw e ds st) =
       map (\<lambda>k. (500 * (k + 1),
                  sum_list (take 500 (drop (500 * k) (losses_since st (dropout_epoch fw e ds st))))
                    / 500))
         [0..<length ds div 500]"
    unfolding dropout_epoch_def dropout_batches_def by (rule dropout_epoch_facts(3))
  moreover have "reports_since st (convnet_epoch fw e ds st) =
       map (\<lambda>k. (500 * (k + 1),
                  sum_list (take 500 (drop (500 * k) (losses_since st (convnet_epoch fw e ds st))))
                    / 500))
         [0..<length ds div 500]"
    unfolding convnet_epoch_def convnet_batches_def by (rule convnet_epoch_facts(3))
  ultimately show ?thesis
    using dropout_accumulator [of fw e ds st] convnet_accumulator [of fw e ds st]
    by blast
qed

text \<open>
  C8. For every batch size \<open>n\<close>, a batch of single-channel 28 x 28 images passes
  through \<open>ConvNet\<close> without a shape mismatch: the two convolutions give 26 x 26 maps
  (10 channels) and then 24 x 24 maps (5 channels), flattening gives
  \<open>24 * 24 * 5 = 2880\<close> features, the in-features of the first linear layer, and the
  output has 10 values per sample.
\<close>

theorem convnet_forward_shapes:
  "sequential_shapes ConvNet [n, 1, 28, 28] =
     Some [[n, 10, 26, 26], [n, 10, 26, 26], [n, 5, 24, 24], [n, 5, 24, 24], [n, 2880],
           [n, 64], [n, 64], [n, 32], [n, 32], [n, 10]]
   \<and> forward_shape ConvNet [n, 1, 28, 28] = Some [n, 10]
   \<and> ConvNet ! 5 = Linear 2880 64
   \<and> (24 * 24 * 5 :: nat) = 2880"
  by (simp add: ConvNet_def forward_shape_def)

text \<open>
  C4, as the code has it. The loops of the L1, L2, Elastic Net and Dropout notebooks
  run the same cycle of calls in every iteration, use AdamW with learning rate
  \<open>1e-4\<close>, and print a report after the same mini-batches. The L1, L2 and Elastic
  Net loops keep no accumulator and report the loss of that mini-batch alone; the
  Dropout loop reports the mean of the losses accumulated since the previous report.
\<close>

theorem regularised_loops_shared_structure:
  "phases_since st (l1_epoch fw e ds st) = concat (replicate (length ds) training_cycle)
   \<and> phases_since st (l2_epoch fw e ds st) = phases_since st (l1_epoch fw e ds st)
   \<and> phases_since st (elastic_epoch fw e ds st) = phases_since st (l1_epoch fw e ds st)
   \<and> phases_since st (dropout_epoch fw e ds st) = phases_since st (l1_epoch fw e ds st)
   \<and> l1_optimizer = AdamW (1 / 10 ^ 4) None
   \<and> l2_optimizer = AdamW (1 / 10 ^ 4) None
   \<and> elastic_optimizer = AdamW (1 / 10 ^ 4) None
   \<and> dropout_optimizer = AdamW (1 / 10 ^ 4) (Some 1)
   \<and> map fst (reports_since st (l1_epoch fw e ds st)) =
       map (\<lambda>k. 500 * (k + 1)) [0..<length ds div 500]
   \<and> map fst (reports_since st (l2_epoch fw e ds st)) =
       map (\<lambda>k. 500 * (k + 1)) [0..<length ds div 500]
   \<and> map fst (reports_since st (elastic_epoch fw e ds st)) =
       map (\<lambda>k. 500 * (k + 1)) [0..<length ds div 500]
   \<and> map fst (reports_since st (dropout_epoch fw e ds st)) =
       map (\<lambda>k. 500 * (k + 1)) [0..<length ds div 500]
   \<and> reports_since st (l1_epoch fw e ds st) =
       minibatch_reports (losses_since st (l1_epoch fw e ds st))
   \<and> reports_since st (l2_epoch fw e ds st) =
       minibatch_reports (losses_since st (l2_epoch fw e ds st))
   \<and> reports_since st (elastic_epoch fw e ds st) =
       minibatch_reports (losses_since st (elastic_epoch fw e ds st))
   \<and> reports_since st (dropout_epoch fw e ds st) =
       running_reports (losses_since st (dropout_epoch fw e ds st))"
proof -
  have "map fst (reports_since st (l1_epoch fw e ds st)) =
       map (\<lambda>k. 500 * (k + 1)) [0..<length ds div 500]"
    unfolding l1_epoch_reports_eq report_points l1_epoch_losses_length ..
  moreover have "map fst (reports_since st (l2_epoch fw e ds st)) =
       map (\<lambda>k. 500 * (k + 1)) [0..<length ds div 500]"
    unfolding l2_epoch_reports_eq report_points l2_epoch_losses_length ..
  moreover have "map fst (reports_since st (elastic_epoch fw e ds st)) =
       map (\<lambda>k. 500 * (k + 1)) [0..<length ds div 500]"
    unfolding elastic_epoch_reports_eq report_points elastic_epoch_losses_length ..
  moreover have "map fst (reports_since st (dropout_epoch fw e ds st)) =
       map (\<lambda>k. 500 * (k + 1)) [0..<length ds div 500]"
    unfolding dropout_epoch_reports_eq report_points dropout_epoch_losses_length ..
  moreover have "phases_since st (l2_epoch fw e ds st) = phases_since st (l1_epoch fw e ds st)"
    "phases_since st (elastic_epoch fw e ds st) = phases_since st (l1_epoch fw e ds st)"
    "phases_since st (dropout_epoch fw e ds st) = phases_since st (l1_epoch fw e ds st)"
    unfolding l1_epoch_phases_eq l2_epoch_phases_eq elastic_epoch_phases_eq
      dropout_epoch_phases_eq by (rule refl)+
  ultimately show ?thesis
    using l1_epoch_phases_eq [of st fw e ds]
      l1_optimizer_def l2_optimizer_def elastic_optimizer_def dropout_optimizer_def
      l1_epoch_reports_eq [of st fw e ds] l2_epoch_reports_eq [of st fw e ds]
      elastic_epoch_reports_eq [of st fw e ds] dropout_epoch_reports_eq [of st fw e ds]
    by blast
qed

text \<open>
  C4, as stated, fails for the pair L1 and Dropout: on the same 500 mini-batches,
  with the same losses \<open>1, \<dots>, 1, 2\<close> backpropagated in both loops (the penalty is
  zero), the L1 loop reports \<open>2\<close> after mini-batch 500 and the Dropout loop
  reports \<open>501 / 500\<close>.
\<close>

theorem l1_and_dropout_reports_differ:
  "losses_since demo_state (l1_epoch demo_fw 0 demo_batches demo_state) =
     losses_since demo_state (dropout_epoch demo_fw 0 demo_batches demo_state)
   \<and> reports_since demo_state (l1_epoch demo_fw 0 demo_batches demo_state) = [(500, 2)]
   \<and> reports_since demo_state (dropout_epoch demo_fw 0 demo_batches demo_state)
       = [(500, 501 / 500)]
   \<and> reports_since demo_state (l1_epoch demo_fw 0 demo_batches demo_state)
       \<noteq> reports_since demo_state (dropout_epoch demo_fw 0 demo_batches demo_state)"
  unfolding l1_epoch_reports_eq dropout_epoch_reports_eq demo_l1_losses demo_dropout_losses
    demo_losses demo_minibatch_reports demo_running_reports
  by simp

text \<open>
  C9, as the code has it. For every non-empty list of parameter tensors the
  concatenation of the flattened views exists, and with the sums taken in exact
  arithmetic the L1 penalty of the concatenation is the sum of the L1 penalties of
  the tensors taken one by one, likewise for the L2 penalty, and neither depends on
  the order of the list. The rounded 32-bit sums of the library are not covered.
\<close>

theorem penalty_additive_in_exact_arithmetic:
  "ps \<noteq> [] \<Longrightarrow>
     torch_cat (flattened ps) = Inr (cat (flattened ps))
   \<and> compute_l1_loss (cat (flattened ps)) = (\<Sum>p\<leftarrow>ps. compute_l1_loss p)
   \<and> compute_l2_loss (cat (flattened ps)) = (\<Sum>p\<leftarrow>ps. compute_l2_loss p)
   \<and> (mset qs = mset ps \<longrightarrow>
        torch_cat (flattened qs) = Inr (cat (flattened qs))
      \<and> compute_l1_loss (cat (flattened qs)) = compute_l1_loss (cat (flattened ps))
      \<and> compute_l2_loss (cat (flattened qs)) = compute_l2_loss (cat (flattened ps)))"
proof -
  assume ne: "ps \<noteq> []"
  have perm: "torch_cat (flattened qs) = Inr (cat (flattened qs))"
    "compute_l1_loss (cat (flattened qs)) = compute_l1_loss (cat (flattened ps))"
    "compute_l2_loss (cat (flattened qs)) = compute_l2_loss (cat (flattened ps))"
    if eq: "mset qs = mset ps"
  proof -
    from eq ne have "qs \<noteq> []" by auto
    then show "torch_cat (flattened qs) = Inr (cat (flattened qs))"
      by (rule torch_cat_nonempty)
    show "compute_l1_loss (cat (flattened qs)) = compute_l1_loss (cat (flattened ps))"
      unfolding l1_cat_additive by (rule sum_list_map_mset [OF eq])
    show "compute_l2_loss (cat (flattened qs)) = compute_l2_loss (cat (flattened ps))"
      unfolding l2_cat_additive by (rule sum_list_map_mset [OF eq])
  qed
  then show ?thesis
    using torch_cat_nonempty [OF ne] l1_cat_additive [of ps] l2_cat_additive [of ps] by blast
qed

theorem penalty_additive_in_exact_arithmetic_witness:
  "[\<lparr>shape = [2, 1], elems = [1, - 2]\<rparr>, \<lparr>shape = [1], elems = [3]\<rparr>] \<noteq> []
   \<and> mset [\<lparr>shape = [1], elems = [3]\<rparr>, \<lparr>shape = [2, 1], elems = [1, - 2]\<rparr>]
     = mset [\<lparr>shape = [2, 1], elems = [1, - 2]\<rparr>, \<lparr>shape = [1], elems = [3]\<rparr>]
   \<and> torch_cat (flattened
       [\<lparr>shape = [2, 1], elems = [1, - 2]\<rparr>, \<lparr>shape = [1], elems = [3]\<rparr>])
     = Inr \<lparr>shape = [3], elems = [1, - 2, 3]\<rparr>
   \<and> compute_l1_loss (cat (flattened
       [\<lparr>shape = [1], elems = [3]\<rparr>, \<lparr>shape = [2, 1], elems = [1, - 2]\<rparr>]))
     = compute_l1_loss (cat (flattened
       [\<lparr>shape = [2, 1], elems = [1, - 2]\<rparr>, \<lparr>shape = [1], elems = [3]\<rparr>]))
   \<and> compute_l2_loss (cat (flattened
       [\<lparr>shape = [1], elems = [3]\<rparr>, \<lparr>shape = [2, 1], elems = [1, - 2]\<rparr>]))
     = compute_l2_loss (cat (flattened
       [\<lparr>shape = [2, 1], elems = [1, - 2]\<rparr>, \<lparr>shape = [1], elems = [3]\<rparr>]))
   \<and> compute_l1_loss (cat (flattened
       [\<lparr>shape = [2, 1], elems = [1, - 2]\<rparr>, \<lparr>shape = [1], elems = [3]\<rparr>])) = 6
   \<and> compute_l2_loss (cat (flattened
       [\<lparr>shape = [2, 1], elems = [1, - 2]\<rparr>, \<lparr>shape = [1], elems = [3]\<rparr>])) = 14"
  using penalty_additive_in_exact_arithmetic
    [of "[\<lparr>shape = [2, 1], elems = [1, - 2]\<rparr>, \<lparr>shape = [1], elems = [3]\<rparr>]"
        "[\<lparr>shape = [1], elems = [3]\<rparr>, \<lparr>shape = [2, 1], elems = [1, - 2]\<rparr>]"]
  by (simp add: compute_l1_loss_def compute_l2_loss_def torch_sum_def torch_abs_def
      torch_square_def cat_def flattened_map view_flat_def)

text \<open>
  C9, as stated, fails on the code in two ways. On the empty list \<^verbatim>\<open>torch.cat\<close>
  raises, so there is no penalty of the concatenation. And in 32-bit floats the
  tensors \<open>[16777216]\<close> and \<open>[1, 1]\<close> have the L1 penalty \<open>16777216\<close> when
  concatenated in this order, while their separate penalties add up to \<open>16777218\<close>,
  which is also the penalty of the concatenation in the other order.
\<close>

theorem penalty_not_additive_in_float32:
  "torch_cat (flattened []) = Inl Empty_tensor_list
   \<and> compute_l1_loss_f32 (cat (flattened
        [\<lparr>shape = [1], elems = [16777216]\<rparr>, \<lparr>shape = [2], elems = [1, 1]\<rparr>])) = 16777216
   \<and> foldl f32_add 0 (map compute_l1_loss_f32
        [\<lparr>shape = [1], elems = [16777216]\<rparr>, \<lparr>shape = [2], elems = [1, 1]\<rparr>]) = 16777218
   \<and> compute_l1_loss_f32 (cat (flattened
        [\<lparr>shape = [2], elems = [1, 1]\<rparr>, \<lparr>shape = [1], elems = [16777216]\<rparr>])) = 16777218"
  by (simp add: torch_cat_def flattened_map cat_def view_flat_def compute_l1_loss_f32_def
      torch_sum_f32_def torch_abs_def f32_add_def f32_round_values)

end
